theory Spec2Isabelle
  imports Main "HOL-Library.Sublist"
begin

section \<open>Resolve cache: choosing between the ambient and the concrete resolution\<close>

text \<open>
  \<^verbatim>\<open>ExtendedResolvedModule\<close> carries two optional paths; every other piece of resolution
  metadata is passed through untouched and lives in the extension slot of the record.
  An absent field (\<^verbatim>\<open>undefined\<close>) is \<open>None\<close>.
\<close>

record extended_resolved_module =
  resolvedFileName :: "string option"
  resolvedAmbientFileName :: "string option"

text \<open>The operator \<^verbatim>\<open>a ?? b\<close>: the right operand is taken only when the left one is absent.\<close>

definition nullish_coalesce :: "'a option \<Rightarrow> 'a option \<Rightarrow> 'a option" where
  "nullish_coalesce a b = (case a of None \<Rightarrow> b | Some v \<Rightarrow> Some v)"

text \<open>
  \<^verbatim>\<open>pickResolvedModule(resolvedModule, preferAmbient)\<close>. The non-null assertion on
  \<^verbatim>\<open>resolvedFileName\<close> exists for the type checker only and does nothing at run time.
\<close>

definition pickResolvedModule :: "'a extended_resolved_module_scheme \<Rightarrow> bool \<Rightarrow> string option" where
  "pickResolvedModule resolvedModule preferAmbient =
     (if preferAmbient
      then nullish_coalesce (resolvedAmbientFileName resolvedModule) (resolvedFileName resolvedModule)
      else resolvedFileName resolvedModule)"

section \<open>Configuration normalizer: data model\<close>

text \<open>
  A JavaScript value as far as compiler options and configuration JSON need it. A nested
  object is a map from property names to values. Numbers are integers: the numbers this
  code looks at are enum codes, and it only asks for their type. \<open>JFun\<close> stands for a
  function value of which only the type is observed.
\<close>

datatype jsval =
    JUndefined
  | JNull
  | JBool bool
  | JNum int
  | JStr string
  | JArr "jsval list"
  | JObj "string \<Rightarrow> jsval option"
  | JFun

text \<open>\<^verbatim>\<open>typeof v\<close> for a property value.\<close>

fun typeof_value :: "jsval \<Rightarrow> string" where
  "typeof_value JUndefined = ''undefined''"
| "typeof_value JNull = ''object''"
| "typeof_value (JBool _) = ''boolean''"
| "typeof_value (JNum _) = ''number''"
| "typeof_value (JStr _) = ''string''"
| "typeof_value (JArr _) = ''object''"
| "typeof_value (JObj _) = ''object''"
| "typeof_value JFun = ''function''"

text \<open>
  \<^verbatim>\<open>CompilerOptions\<close>: option name to value. The object spread
  \<^verbatim>\<open>{...a, ...b}\<close> of two such objects is \<open>a ++ b\<close>: the right operand wins on a shared key.
\<close>

type_synonym compiler_options = "string \<rightharpoonup> jsval"

text \<open>
  A resolver hook: \<^verbatim>\<open>(resolvedOptions: CompilerOptions) => CompilerOptions\<close>. It is the
  caller's code and is taken as a function of its argument: it returns, and what it may do
  besides is not an effect of \<^verbatim>\<open>getParsedCommandLine\<close>.
\<close>

type_synonym hook = "compiler_options \<Rightarrow> compiler_options"

text \<open>
  \<^verbatim>\<open>ParsedCommandLine\<close> as the compiler's configuration parser returns it: the fields this
  code reads.
\<close>

record parsed_command_line =
  options :: compiler_options
  fileNames :: "string list"
  errors :: "jsval list"

text \<open>
  An object handed in as \<^verbatim>\<open>tsconfig\<close>. Its type is a union of object types that
  are told apart by the presence of properties, so the object is kept structurally: the
  properties to which the plugin's declarations give a type
  (\<^verbatim>\<open>options\<close>, \<^verbatim>\<open>hook\<close>, \<^verbatim>\<open>fileName\<close>, \<^verbatim>\<open>fileNames\<close>,
  \<^verbatim>\<open>errors\<close>) are optional fields of that type, \<open>None\<close> when the object has no such
  property, and \<open>prop_rest\<close> holds every other own property by name.
\<close>

record js_object =
  prop_options :: "compiler_options option"
  prop_hook :: "hook option"
  prop_fileName :: "string option"
  prop_fileNames :: "string list option"
  prop_errors :: "jsval list option"
  prop_rest :: compiler_options

text \<open>
  The own properties of an object as a map from names to values (what an object spread
  copies, and what the key test \<^verbatim>\<open>k in obj\<close> consults). The typed properties take their
  names; a function-valued \<^verbatim>\<open>hook\<close> shows as \<open>JFun\<close>.
\<close>

definition own_properties :: "js_object \<Rightarrow> compiler_options" where
  "own_properties obj = (\<lambda>k.
     if k = ''options'' then map_option JObj (prop_options obj)
     else if k = ''hook'' then map_option (\<lambda>_. JFun) (prop_hook obj)
     else if k = ''fileName'' then map_option JStr (prop_fileName obj)
     else if k = ''fileNames'' then map_option (\<lambda>fs. JArr (map JStr fs)) (prop_fileNames obj)
     else if k = ''errors'' then map_option JArr (prop_errors obj)
     else prop_rest obj k)"

definition has_property :: "js_object \<Rightarrow> string \<Rightarrow> bool" where
  "has_property obj k = (own_properties obj k \<noteq> None)"

text \<open>Reading a property: \<^verbatim>\<open>undefined\<close> when the object has none of that name.\<close>

definition get_property :: "js_object \<Rightarrow> string \<Rightarrow> jsval" where
  "get_property obj k = (case own_properties obj k of None \<Rightarrow> JUndefined | Some v \<Rightarrow> v)"

text \<open>
  Objects are mutable and shared, so they live in a store and are passed by reference.
  \<open>next_ref\<close> is the first reference never handed out. The state also records, in order,
  every file system call: those this code makes itself through its own helpers, and those
  the compiler's parser makes through the system host \<^verbatim>\<open>sys\<close> that this code hands to it.
  The host of a configuration parser can list directories, test for files and read files.
\<close>

type_synonym ref = nat

datatype host_call = SysReadDirectory string | SysFileExists string | SysReadFile string

datatype fs_call = FileExists string | ReadFile string | ViaSys host_call

record world =
  objects :: "ref \<Rightarrow> js_object"
  next_ref :: ref
  fs_calls :: "fs_call list"

definition alloc :: "js_object \<Rightarrow> world \<Rightarrow> ref \<times> world" where
  "alloc obj w =
     (next_ref w, w\<lparr>objects := (objects w)(next_ref w := obj), next_ref := Suc (next_ref w)\<rparr>)"

definition update_object :: "ref \<Rightarrow> (js_object \<Rightarrow> js_object) \<Rightarrow> world \<Rightarrow> world" where
  "update_object r f w = w\<lparr>objects := (objects w)(r := f (objects w r))\<rparr>"

text \<open>The object a freshly parsed command line is.\<close>

definition object_of_parsed :: "parsed_command_line \<Rightarrow> js_object" where
  "object_of_parsed p =
     \<lparr>prop_options = Some (options p), prop_hook = None, prop_fileName = None,
      prop_fileNames = Some (fileNames p), prop_errors = Some (errors p),
      prop_rest = Map.empty\<rparr>"

text \<open>
  The \<^verbatim>\<open>tsconfig\<close> argument by its run-time type:
  \<^verbatim>\<open>string | Partial<CompilerOptions> | Partial<InputCompilerOptions> | ParsedCommandLine |
  TsConfigResolver | TsConfigResolverWithFileName\<close>, or nothing.
\<close>

datatype tsconfig_input =
    TUndefined
  | TNull
  | TString string
  | TFunction hook
  | TObject ref

fun typeof :: "tsconfig_input \<Rightarrow> string" where
  "typeof TUndefined = ''undefined''"
| "typeof TNull = ''object''"
| "typeof (TString _) = ''string''"
| "typeof (TFunction _) = ''function''"
| "typeof (TObject _) = ''object''"

text \<open>\<^verbatim>\<open>tsconfig != null\<close> is \<open>\<not> nullish tsconfig\<close>.\<close>

fun nullish :: "tsconfig_input \<Rightarrow> bool" where
  "nullish TUndefined = True"
| "nullish TNull = True"
| "nullish _ = False"

text \<open>
  \<^verbatim>\<open>k in tsconfig\<close> and \<^verbatim>\<open>tsconfig[k]\<close>. Every use in the source stands behind the
  tests that \<^verbatim>\<open>tsconfig\<close> is neither nullish, nor a string, nor a function, so only the
  object case is ever evaluated.
\<close>

fun key_in :: "world \<Rightarrow> string \<Rightarrow> tsconfig_input \<Rightarrow> bool" where
  "key_in w k (TObject r) = has_property (objects w r) k"
| "key_in w k _ = False"

fun property_of :: "world \<Rightarrow> tsconfig_input \<Rightarrow> string \<Rightarrow> jsval" where
  "property_of w (TObject r) k = get_property (objects w r) k"
| "property_of w _ k = JUndefined"

section \<open>Configuration normalizer: variant discrimination\<close>

definition isParsedCommandLine :: "world \<Rightarrow> tsconfig_input \<Rightarrow> bool" where
  "isParsedCommandLine w tsconfig =
     (\<not> nullish tsconfig \<and> typeof tsconfig \<noteq> ''string'' \<and> typeof tsconfig \<noteq> ''function''
      \<and> key_in w ''options'' tsconfig \<and> \<not> key_in w ''hook'' tsconfig)"

definition isRawCompilerOptions :: "world \<Rightarrow> tsconfig_input \<Rightarrow> bool" where
  "isRawCompilerOptions w tsconfig =
     (\<not> nullish tsconfig \<and> typeof tsconfig \<noteq> ''string'' \<and> typeof tsconfig \<noteq> ''function''
      \<and> \<not> key_in w ''options'' tsconfig \<and> \<not> key_in w ''hook'' tsconfig)"

definition isTsConfigResolver :: "tsconfig_input \<Rightarrow> bool" where
  "isTsConfigResolver tsconfig = (\<not> nullish tsconfig \<and> typeof tsconfig = ''function'')"

definition isTsConfigResolverWithFileName :: "world \<Rightarrow> tsconfig_input \<Rightarrow> bool" where
  "isTsConfigResolverWithFileName w tsconfig =
     (\<not> nullish tsconfig \<and> typeof tsconfig \<noteq> ''string'' \<and> typeof tsconfig \<noteq> ''function''
      \<and> \<not> key_in w ''options'' tsconfig \<and> key_in w ''hook'' tsconfig)"

definition isCompilerOptions :: "world \<Rightarrow> tsconfig_input \<Rightarrow> bool" where
  "isCompilerOptions w tsconfig =
     (\<not> nullish tsconfig \<and> typeof tsconfig \<noteq> ''string'' \<and> typeof tsconfig \<noteq> ''function''
      \<and> \<not> key_in w ''options'' tsconfig \<and> \<not> key_in w ''hook'' tsconfig
      \<and> ((key_in w ''module'' tsconfig
             \<and> typeof_value (property_of w tsconfig ''module'') = ''number'')
         \<or> (key_in w ''target'' tsconfig
             \<and> typeof_value (property_of w tsconfig ''target'') = ''number'')
         \<or> (key_in w ''jsx'' tsconfig
             \<and> typeof_value (property_of w tsconfig ''jsx'') = ''number'')
         \<or> (key_in w ''moduleResolution'' tsconfig
             \<and> typeof_value (property_of w tsconfig ''moduleResolution'') = ''number'')
         \<or> (key_in w ''newLine'' tsconfig
             \<and> typeof_value (property_of w tsconfig ''newLine'') = ''number'')))"

section \<open>Configuration normalizer: collaborators\<close>

text \<open>
  What \<^verbatim>\<open>getParsedCommandLine\<close> imports and does not define: the file system and path
  helpers, the declaration extension constant, and the compiler's two configuration parsers.
  They are parameters of the model.
  \<^item> \<open>parseConfigFileTextToJson fileName text\<close> is the \<^verbatim>\<open>config\<close> member of the parser's
    result.
  \<^item> \<open>parseJsonConfigFileContent json basePath existingOptions configFileName\<close> is what
    the parser returns; the last two arguments are optional in the source and \<open>None\<close> when
    the call leaves them out. Every call in the source hands it the system host \<^verbatim>\<open>sys\<close>
    as second argument, through which it reaches the disk.
  \<^item> \<open>sys_calls json basePath existingOptions configFileName\<close> are the calls the parser
    makes on that host for these arguments, in order.
  The collaborators are taken to return: the parser reports what is wrong with a
  configuration in the \<^verbatim>\<open>errors\<close> of its result.
\<close>

record toolchain =
  fileExistsSync :: "string \<Rightarrow> bool"
  readFileSync :: "string \<Rightarrow> string"
  ensureAbsolute :: "string \<Rightarrow> string \<Rightarrow> string"
  DECLARATION_EXTENSION :: string
  parseConfigFileTextToJson :: "string \<Rightarrow> string \<Rightarrow> jsval"
  parseJsonConfigFileContent ::
    "jsval \<Rightarrow> string \<Rightarrow> compiler_options option \<Rightarrow> string option \<Rightarrow> parsed_command_line"
  sys_calls ::
    "jsval \<Rightarrow> string \<Rightarrow> compiler_options option \<Rightarrow> string option \<Rightarrow> host_call list"

text \<open>
  A call \<^verbatim>\<open>parseJsonConfigFileContent(json, sys, basePath, existingOptions, configFileName)\<close>:
  its result, and the state with the parser's calls on the host recorded.
\<close>

definition call_parser ::
    "toolchain \<Rightarrow> jsval \<Rightarrow> string \<Rightarrow> compiler_options option \<Rightarrow> string option \<Rightarrow> world
       \<Rightarrow> parsed_command_line \<times> world" where
  "call_parser tc json basePath existingOptions configFileName w =
     (parseJsonConfigFileContent tc json basePath existingOptions configFileName,
      w\<lparr>fs_calls := fs_calls w
           @ map ViaSys (sys_calls tc json basePath existingOptions configFileName)\<rparr>)"

text \<open>\<^verbatim>\<open>file.endsWith(ext)\<close>.\<close>

definition endsWith :: "string \<Rightarrow> string \<Rightarrow> bool" where
  "endsWith file ext =
     (length ext \<le> length file \<and> drop (length file - length ext) file = ext)"

section \<open>Configuration normalizer: \<^verbatim>\<open>getParsedCommandLine\<close>\<close>

text \<open>
  What the function throws. \<open>ReferenceError\<close> is the one \<^verbatim>\<open>throw\<close> statement of the
  source. \<open>TypeError\<close> is what the run time raises when a value of the wrong kind is used:
  a property read on \<^verbatim>\<open>undefined\<close>, or a non-string handed to the path helper.
\<close>

datatype error = ReferenceError string | TypeError string

definition missing_tsconfig_message :: "string \<Rightarrow> string" where
  "missing_tsconfig_message tsconfigPath =
     ''The given tsconfig: '' @ [CHR 0x27] @ tsconfigPath @ [CHR 0x27]
       @ '' doesn'' @ [CHR 0x27] @ ''t exist!''"

text \<open>
  Each branch of the function leaves the original options, the reference to the parsed
  command line, and the state. A throw leaves the error and the state reached when it
  happens. Where a branch takes its input apart, the shapes that the guard of the branch
  excludes are closed with a \<open>TypeError\<close>; they are never reached.
\<close>

type_synonym branch_result = "(error \<times> world) + (compiler_options \<times> ref \<times> world)"

text \<open>
  First branch: the object is used as it is, its \<^verbatim>\<open>options\<close> property is reassigned.
  The guard of the branch has established that the property is there.
\<close>

definition use_parsed_command_line ::
    "compiler_options \<Rightarrow> tsconfig_input \<Rightarrow> world \<Rightarrow> branch_result" where
  "use_parsed_command_line forced tsconfig w =
     (case tsconfig of
        TObject r \<Rightarrow>
          (case prop_options (objects w r) of
             Some opts \<Rightarrow>
               Inr (opts, r, update_object r (\<lambda>obj. obj\<lparr>prop_options := Some (opts ++ forced)\<rparr>) w)
           | None \<Rightarrow> Inl (TypeError ''options'', w))
      | _ \<Rightarrow> Inl (TypeError ''options'', w))"

text \<open>
  Second branch: the object is the \<^verbatim>\<open>existingOptions\<close> argument of the parser, first
  alone, then spread together with the forced options; the JSON argument is \<^verbatim>\<open>{}\<close>.
\<close>

definition use_compiler_options ::
    "toolchain \<Rightarrow> string \<Rightarrow> compiler_options \<Rightarrow> tsconfig_input \<Rightarrow> world \<Rightarrow> branch_result" where
  "use_compiler_options tc cwd forced tsconfig w =
     (case tsconfig of
        TObject r \<Rightarrow>
          (let given = own_properties (objects w r);
               (first, w1) = call_parser tc (JObj Map.empty) cwd (Some given) None w;
               original = options first;
               (parsed, w2) = call_parser tc (JObj Map.empty) cwd (Some (given ++ forced)) None w1;
               (p, w') = alloc (object_of_parsed parsed) w2
           in Inr (original, p, w'))
      | _ \<Rightarrow> Inl (TypeError ''tsconfig'', w))"

text \<open>
  Third branch: the object is the \<^verbatim>\<open>compilerOptions\<close> member of the JSON argument;
  the first call passes no existing options, the second the forced ones.
\<close>

definition use_raw_compiler_options ::
    "toolchain \<Rightarrow> string \<Rightarrow> compiler_options \<Rightarrow> tsconfig_input \<Rightarrow> world \<Rightarrow> branch_result" where
  "use_raw_compiler_options tc cwd forced tsconfig w =
     (case tsconfig of
        TObject r \<Rightarrow>
          (let json = JObj (Map.empty(''compilerOptions'' \<mapsto> JObj (own_properties (objects w r))));
               (first, w1) = call_parser tc json cwd None None w;
               original = options first;
               (parsed, w2) = call_parser tc json cwd (Some forced) None w1;
               (p, w') = alloc (object_of_parsed parsed) w2
           in Inr (original, p, w'))
      | _ \<Rightarrow> Inl (TypeError ''tsconfig'', w))"

text \<open>
  Last branch, the second argument of \<^verbatim>\<open>ensureAbsolute\<close>: the \<^verbatim>\<open>fileName\<close> of a
  record with a hook, else \<^verbatim>\<open>tsconfig\<close> itself unless it is nullish or a function, else
  the default name. \<open>None\<close> when that value is not a string (a record without
  \<^verbatim>\<open>fileName\<close>, or an object that reached this branch).
\<close>

definition tsconfig_file_argument :: "world \<Rightarrow> tsconfig_input \<Rightarrow> string option" where
  "tsconfig_file_argument w tsconfig =
     (if isTsConfigResolverWithFileName w tsconfig
      then (case tsconfig of TObject r \<Rightarrow> prop_fileName (objects w r) | _ \<Rightarrow> None)
      else if \<not> nullish tsconfig \<and> \<not> isTsConfigResolver tsconfig
      then (case tsconfig of TString s \<Rightarrow> Some s | _ \<Rightarrow> None)
      else Some ''tsconfig.json'')"

text \<open>
  Last branch, after the content of the configuration file is known: parse twice, then
  run the resolver function or the hook on both results and spread the forced options over
  what it returns.
\<close>

definition parse_and_extend ::
    "toolchain \<Rightarrow> string \<Rightarrow> compiler_options \<Rightarrow> tsconfig_input \<Rightarrow> string \<Rightarrow> string \<Rightarrow> world
       \<Rightarrow> branch_result" where
  "parse_and_extend tc cwd forced tsconfig tsconfigPath tsconfigContent w =
     (let config = parseConfigFileTextToJson tc tsconfigPath tsconfigContent;
          (first, w1) = call_parser tc config cwd (Some Map.empty) (Some tsconfigPath) w;
          original = options first;
          (parsed, w2) = call_parser tc config cwd (Some forced) (Some tsconfigPath) w1;
          (p, w') = alloc (object_of_parsed parsed) w2
      in if isTsConfigResolver tsconfig
         then (case tsconfig of
                 TFunction f \<Rightarrow>
                   Inr (f original ++ forced, p,
                        update_object p (\<lambda>obj. obj\<lparr>prop_options := Some (f (options parsed) ++ forced)\<rparr>) w')
               | _ \<Rightarrow> Inl (TypeError ''tsconfig'', w'))
         else if isTsConfigResolverWithFileName w' tsconfig
         then (case tsconfig of
                 TObject r \<Rightarrow>
                   (case prop_hook (objects w' r) of
                      Some f \<Rightarrow>
                        Inr (f original ++ forced, p,
                             update_object p (\<lambda>obj. obj\<lparr>prop_options := Some (f (options parsed) ++ forced)\<rparr>) w')
                    | None \<Rightarrow> Inl (TypeError ''hook'', w'))
               | _ \<Rightarrow> Inl (TypeError ''hook'', w'))
         else Inr (original, p, w'))"

definition resolve_and_parse ::
    "toolchain \<Rightarrow> string \<Rightarrow> compiler_options \<Rightarrow> bool \<Rightarrow> tsconfig_input \<Rightarrow> world \<Rightarrow> branch_result" where
  "resolve_and_parse tc cwd forced hasProvidedTsconfig tsconfig w =
     (case tsconfig_file_argument w tsconfig of
        None \<Rightarrow> Inl (TypeError ''path'', w)
      | Some name \<Rightarrow>
          (let tsconfigPath = ensureAbsolute tc cwd name;
               w1 = w\<lparr>fs_calls := fs_calls w @ [FileExists tsconfigPath]\<rparr>
           in if fileExistsSync tc tsconfigPath
              then parse_and_extend tc cwd forced tsconfig tsconfigPath (readFileSync tc tsconfigPath)
                     (w1\<lparr>fs_calls := fs_calls w1 @ [ReadFile tsconfigPath]\<rparr>)
              else if \<not> hasProvidedTsconfig
              then parse_and_extend tc cwd forced tsconfig tsconfigPath [] w1
              else Inl (ReferenceError (missing_tsconfig_message tsconfigPath), w1)))"

text \<open>
  The statement after the branches: the \<^verbatim>\<open>fileNames\<close> property of the parsed command
  line is replaced by its entries that end with the declaration extension.
\<close>

definition keep_declaration_files :: "toolchain \<Rightarrow> ref \<Rightarrow> world \<Rightarrow> (error \<times> world) + world" where
  "keep_declaration_files tc p w =
     (case prop_fileNames (objects w p) of
        None \<Rightarrow> Inl (TypeError ''fileNames'', w)
      | Some files \<Rightarrow>
          Inr (update_object p
                 (\<lambda>obj. obj\<lparr>prop_fileNames :=
                            Some (filter (\<lambda>file. endsWith file (DECLARATION_EXTENSION tc)) files)\<rparr>) w))"

text \<open>\<^verbatim>\<open>GetParsedCommandLineResult\<close>; the parsed command line is an object reference.\<close>

record get_parsed_command_line_result =
  parsedCommandLine :: ref
  originalCompilerOptions :: compiler_options

text \<open>
  What a call leaves: the result and the final state when it returns, the error and the
  state at the throw when it throws.
\<close>

type_synonym outcome = "(error \<times> world) + (get_parsed_command_line_result \<times> world)"

text \<open>
  The end of the function: filter the file list of the parsed command line, then return it
  together with the original options. An error of the branch, or of the filter, is thrown.
\<close>

definition filter_and_return :: "toolchain \<Rightarrow> branch_result \<Rightarrow> outcome" where
  "filter_and_return tc branch =
     (case branch of
        Inl e \<Rightarrow> Inl e
      | Inr (original, p, w') \<Rightarrow>
          (case keep_declaration_files tc p w' of
             Inl e \<Rightarrow> Inl e
           | Inr w'' \<Rightarrow>
               Inr (\<lparr>parsedCommandLine = p, originalCompilerOptions = original\<rparr>, w'')))"

text \<open>
  \<^verbatim>\<open>IGetParsedCommandLineOptions\<close>; \<open>forcedCompilerOptions\<close> is optional and defaults to
  the empty object.
\<close>

record get_parsed_command_line_options =
  cwd :: string
  tsconfig :: tsconfig_input
  forcedCompilerOptions :: "compiler_options option"

text \<open>The default value \<^verbatim>\<open>{}\<close> of an optional options argument.\<close>

definition options_or_empty :: "compiler_options option \<Rightarrow> compiler_options" where
  "options_or_empty given = (case given of None \<Rightarrow> Map.empty | Some f \<Rightarrow> f)"

definition getParsedCommandLine ::
    "toolchain \<Rightarrow> get_parsed_command_line_options \<Rightarrow> world \<Rightarrow> outcome" where
  "getParsedCommandLine tc opts w =
     (let forced = options_or_empty (forcedCompilerOptions opts);
          hasProvidedTsconfig = \<not> nullish (tsconfig opts)
      in filter_and_return tc
           (if isParsedCommandLine w (tsconfig opts)
            then use_parsed_command_line forced (tsconfig opts) w
            else if isCompilerOptions w (tsconfig opts)
            then use_compiler_options tc (cwd opts) forced (tsconfig opts) w
            else if isRawCompilerOptions w (tsconfig opts)
            then use_raw_compiler_options tc (cwd opts) forced (tsconfig opts) w
            else resolve_and_parse tc (cwd opts) forced hasProvidedTsconfig (tsconfig opts) w))"

section \<open>Reading a result\<close>

text \<open>
  The canonical options of an outcome are the \<^verbatim>\<open>options\<close> property of the returned parsed
  command line in the final state; the original options are the second member of the
  result. Both are absent when the call threw.
\<close>

definition canonical_options :: "outcome \<Rightarrow> compiler_options option" where
  "canonical_options outcome =
     (case outcome of
        Inl e \<Rightarrow> None
      | Inr (res, w') \<Rightarrow> prop_options (objects w' (parsedCommandLine res)))"

definition original_options :: "outcome \<Rightarrow> compiler_options option" where
  "original_options outcome =
     (case outcome of
        Inl e \<Rightarrow> None
      | Inr (res, w') \<Rightarrow> Some (originalCompilerOptions res))"

definition result_fileNames :: "outcome \<Rightarrow> string list option" where
  "result_fileNames outcome =
     (case outcome of
        Inl e \<Rightarrow> None
      | Inr (res, w') \<Rightarrow> prop_fileNames (objects w' (parsedCommandLine res)))"

text \<open>The five discriminators of an input in the order the source declares them.\<close>

definition discriminators :: "world \<Rightarrow> tsconfig_input \<Rightarrow> bool list" where
  "discriminators w t =
     [isParsedCommandLine w t, isRawCompilerOptions w t, isTsConfigResolver t,
      isTsConfigResolverWithFileName w t, isCompilerOptions w t]"

definition count_true :: "bool list \<Rightarrow> nat" where
  "count_true bs = length (filter (\<lambda>b. b) bs)"

text \<open>A reference the caller can hold: one that has been handed out.\<close>

fun allocated :: "world \<Rightarrow> tsconfig_input \<Rightarrow> bool" where
  "allocated w (TObject r) = (r < next_ref w)"
| "allocated w _ = True"

text \<open>Looking a key up in options that may be absent.\<close>

definition lookup_in :: "compiler_options option \<Rightarrow> string \<Rightarrow> jsval option" where
  "lookup_in given k = (case given of None \<Rightarrow> None | Some m \<Rightarrow> m k)"

text \<open>The error of a call that throws; none for a call that returns.\<close>

definition thrown :: "outcome \<Rightarrow> error option" where
  "thrown outcome =
     (case outcome of
        Inl (e, w') \<Rightarrow> Some e
      | Inr (res, w') \<Rightarrow> None)"


text \<open>
  A configuration file path that the caller has written down: a path string, or the
  \<^verbatim>\<open>fileName\<close> property of an object.
\<close>

fun supplied_path :: "world \<Rightarrow> tsconfig_input \<Rightarrow> string option" where
  "supplied_path w (TString s) = Some s"
| "supplied_path w (TObject r) = prop_fileName (objects w r)"
| "supplied_path w _ = None"

text \<open>
  The state after a freshly parsed command line has been stored, given its final options,
  and its file list filtered.
\<close>

definition store_parsed :: "toolchain \<Rightarrow> compiler_options \<Rightarrow> parsed_command_line \<Rightarrow> world \<Rightarrow> world" where
  "store_parsed tc final parsed w =
     w\<lparr>objects := (objects w)(next_ref w :=
          \<lparr>prop_options = Some final, prop_hook = None, prop_fileName = None,
           prop_fileNames =
             Some (filter (\<lambda>file. endsWith file (DECLARATION_EXTENSION tc)) (fileNames parsed)),
           prop_errors = Some (errors parsed), prop_rest = Map.empty\<rparr>),
       next_ref := Suc (next_ref w)\<rparr>"

text \<open>
  The function the last branch runs on the parsed options: a resolver function itself, or
  the \<^verbatim>\<open>hook\<close> of an object without \<^verbatim>\<open>options\<close>; none for the other inputs.
\<close>

fun resolver_hook :: "world \<Rightarrow> tsconfig_input \<Rightarrow> hook option" where
  "resolver_hook w (TFunction f) = Some f"
| "resolver_hook w (TObject r) =
     (if prop_options (objects w r) = None then prop_hook (objects w r) else None)"
| "resolver_hook w _ = None"

definition apply_hook :: "hook option \<Rightarrow> compiler_options \<Rightarrow> compiler_options \<Rightarrow> compiler_options" where
  "apply_hook h forced resolved =
     (case h of None \<Rightarrow> resolved | Some f \<Rightarrow> f resolved ++ forced)"

text \<open>
  The outcome of the last branch once the configuration file content is fixed: the file is
  parsed without and with the forced options, the hook applied to both, and the second
  result stored as a new object; the parser's calls on the host are recorded for both runs.
\<close>

definition parsed_outcome ::
    "toolchain \<Rightarrow> string \<Rightarrow> compiler_options \<Rightarrow> hook option \<Rightarrow> string \<Rightarrow> string \<Rightarrow> world
       \<Rightarrow> outcome" where
  "parsed_outcome tc dir forced h path content w =
     (let config = parseConfigFileTextToJson tc path content;
          parsed = parseJsonConfigFileContent tc config dir (Some forced) (Some path)
      in Inr (\<lparr>parsedCommandLine = next_ref w,
                originalCompilerOptions =
                  apply_hook h forced
                    (options (parseJsonConfigFileContent tc config dir (Some Map.empty) (Some path)))\<rparr>,
              store_parsed tc (apply_hook h forced (options parsed)) parsed
                (w\<lparr>fs_calls := fs_calls w
                     @ map ViaSys (sys_calls tc config dir (Some Map.empty) (Some path)
                                   @ sys_calls tc config dir (Some forced) (Some path))\<rparr>)))"

section \<open>A sample project\<close>

text \<open>
  A concrete instance of the collaborators, on which the model is evaluated: a project
  in \<^verbatim>\<open>/project\<close> with a \<^verbatim>\<open>tsconfig.json\<close> that switches \<^verbatim>\<open>strict\<close> on, one source file
  and one declaration file. Its parser stands in for the compiler's. It takes the
  \<^verbatim>\<open>compilerOptions\<close> member of the JSON, replaces a spelled-out \<^verbatim>\<open>target\<close> by its enum
  code, lays the existing options over the result, and last assigns \<^verbatim>\<open>configFilePath\<close>
  itself: the name of the configuration file when it is handed one, \<^verbatim>\<open>undefined\<close>
  otherwise. On the host it lists the base directory.
\<close>

definition sample_targets :: "(string \<times> int) list" where
  "sample_targets =
     [(''ES3'', 0), (''ES5'', 1), (''ES2015'', 2), (''ES2016'', 3), (''ES2017'', 4),
      (''ES2018'', 5), (''ES2019'', 6), (''ES2020'', 7), (''ESNext'', 99)]"

definition sample_enum_code :: "jsval \<Rightarrow> jsval" where
  "sample_enum_code v =
     (case v of
        JStr spelling \<Rightarrow>
          (case map_of sample_targets spelling of Some code \<Rightarrow> JNum code | None \<Rightarrow> v)
      | _ \<Rightarrow> v)"

definition sample_config_options :: "jsval \<Rightarrow> compiler_options" where
  "sample_config_options json =
     (case json of
        JObj members \<Rightarrow>
          (case members ''compilerOptions'' of
             Some (JObj given) \<Rightarrow>
               (case given ''target'' of
                  None \<Rightarrow> given
                | Some v \<Rightarrow> given(''target'' \<mapsto> sample_enum_code v))
           | _ \<Rightarrow> Map.empty)
      | _ \<Rightarrow> Map.empty)"

definition sample_parse ::
    "jsval \<Rightarrow> string \<Rightarrow> compiler_options option \<Rightarrow> string option \<Rightarrow> parsed_command_line" where
  "sample_parse json basePath existingOptions configFileName =
     \<lparr>options = (sample_config_options json ++ options_or_empty existingOptions)
                  (''configFilePath'' \<mapsto>
                     (case configFileName of None \<Rightarrow> JUndefined | Some name \<Rightarrow> JStr name)),
      fileNames = [''/project/src/index.ts'', ''/project/typings/globals.d.ts''],
      errors = []\<rparr>"

definition sample_toolchain :: toolchain where
  \<open>sample_toolchain =
     \<lparr>fileExistsSync = (\<lambda>path. path = ''/project/tsconfig.json''),
      readFileSync = (\<lambda>path. ''{ "compilerOptions": { "strict": true } }''),
      ensureAbsolute = (\<lambda>root path. if take 1 path = ''/'' then path else root @ ''/'' @ path),
      DECLARATION_EXTENSION = ''.d.ts'',
      parseConfigFileTextToJson =
        (\<lambda>fileName text.
           if text = [] then JObj Map.empty
           else JObj (Map.empty(''compilerOptions'' \<mapsto> JObj (Map.empty(''strict'' \<mapsto> JBool True))))),
      parseJsonConfigFileContent = sample_parse,
      sys_calls = (\<lambda>json basePath existingOptions configFileName. [SysReadDirectory basePath])\<rparr>\<close>

text \<open>The options that this parser reads from the configuration file of the sample project.\<close>

definition sample_options :: compiler_options where
  "sample_options =
     Map.empty(''strict'' \<mapsto> JBool True, ''configFilePath'' \<mapsto> JStr ''/project/tsconfig.json'')"

definition empty_object :: js_object where
  "empty_object =
     \<lparr>prop_options = None, prop_hook = None, prop_fileName = None, prop_fileNames = None,
      prop_errors = None, prop_rest = Map.empty\<rparr>"

text \<open>A hook that switches declaration maps on whenever declarations are on.\<close>

definition sample_hook :: hook where
  "sample_hook resolved =
     (case resolved ''declaration'' of
        None \<Rightarrow> resolved
      | Some v \<Rightarrow> resolved(''declarationMap'' \<mapsto> v))"

text \<open>
  The objects of the sample state: 10 a parsed command line with the options of the
  configuration file, 11 an options object with an enum code, 12 a raw options object,
  13 a file name with a hook, 20 a parsed command line without a file list.
\<close>

definition sample_world :: world where
  "sample_world =
     \<lparr>objects = (\<lambda>r.
          if r = 10 then empty_object
            \<lparr>prop_options := Some sample_options,
             prop_fileNames := Some [''/project/src/index.ts'', ''/project/typings/globals.d.ts''],
             prop_errors := Some []\<rparr>
          else if r = 11 then empty_object\<lparr>prop_rest := Map.empty(''target'' \<mapsto> JNum 6)\<rparr>
          else if r = 12 then empty_object\<lparr>prop_rest := Map.empty(''target'' \<mapsto> JStr ''ES2019'')\<rparr>
          else if r = 13 then empty_object
            \<lparr>prop_fileName := Some ''tsconfig.json'', prop_hook := Some sample_hook\<rparr>
          else if r = 20 then empty_object\<lparr>prop_options := Some sample_options\<rparr>
          else empty_object),
      next_ref = 21,
      fs_calls = []\<rparr>"

definition sample_forced :: compiler_options where
  "sample_forced = Map.empty(''declaration'' \<mapsto> JBool True)"

text \<open>A call in the sample project.\<close>

definition sample_call :: "tsconfig_input \<Rightarrow> compiler_options option \<Rightarrow> get_parsed_command_line_options" where
  "sample_call t forced = \<lparr>cwd = ''/project'', tsconfig = t, forcedCompilerOptions = forced\<rparr>"

section \<open>Auxiliary facts: discriminators\<close>

lemmas discriminator_defs = isParsedCommandLine_def isRawCompilerOptions_def isTsConfigResolver_def
  isTsConfigResolverWithFileName_def isCompilerOptions_def

lemma has_property_simps:
  "has_property obj ''options'' = (prop_options obj \<noteq> None)"
  "has_property obj ''hook'' = (prop_hook obj \<noteq> None)"
  "has_property obj ''module'' = (prop_rest obj ''module'' \<noteq> None)"
  "has_property obj ''target'' = (prop_rest obj ''target'' \<noteq> None)"
  "has_property obj ''jsx'' = (prop_rest obj ''jsx'' \<noteq> None)"
  "has_property obj ''moduleResolution'' = (prop_rest obj ''moduleResolution'' \<noteq> None)"
  "has_property obj ''newLine'' = (prop_rest obj ''newLine'' \<noteq> None)"
  by (simp_all add: has_property_def own_properties_def)

lemma get_property_simps:
  "get_property obj ''module'' = (case prop_rest obj ''module'' of None \<Rightarrow> JUndefined | Some v \<Rightarrow> v)"
  "get_property obj ''target'' = (case prop_rest obj ''target'' of None \<Rightarrow> JUndefined | Some v \<Rightarrow> v)"
  "get_property obj ''jsx'' = (case prop_rest obj ''jsx'' of None \<Rightarrow> JUndefined | Some v \<Rightarrow> v)"
  "get_property obj ''moduleResolution'' = (case prop_rest obj ''moduleResolution'' of None \<Rightarrow> JUndefined | Some v \<Rightarrow> v)"
  "get_property obj ''newLine'' = (case prop_rest obj ''newLine'' of None \<Rightarrow> JUndefined | Some v \<Rightarrow> v)"
  by (simp_all add: get_property_def own_properties_def)

text \<open>What each discriminator says about the shape of the input.\<close>

lemma isParsedCommandLine_iff:
  "isParsedCommandLine w t \<longleftrightarrow>
     (\<exists>r. t = TObject r \<and> prop_options (objects w r) \<noteq> None \<and> prop_hook (objects w r) = None)"
  by (cases t) (auto simp: isParsedCommandLine_def has_property_simps)

lemma isRawCompilerOptions_iff:
  "isRawCompilerOptions w t \<longleftrightarrow>
     (\<exists>r. t = TObject r \<and> prop_options (objects w r) = None \<and> prop_hook (objects w r) = None)"
  by (cases t) (auto simp: isRawCompilerOptions_def has_property_simps)

lemma isTsConfigResolverWithFileName_iff:
  "isTsConfigResolverWithFileName w t \<longleftrightarrow>
     (\<exists>r. t = TObject r \<and> prop_options (objects w r) = None \<and> prop_hook (objects w r) \<noteq> None)"
  by (cases t) (auto simp: isTsConfigResolverWithFileName_def has_property_simps)

lemma isTsConfigResolver_iff: "isTsConfigResolver t \<longleftrightarrow> (\<exists>f. t = TFunction f)"
  by (cases t) (auto simp: isTsConfigResolver_def)

lemma isCompilerOptions_raw: "isCompilerOptions w t \<Longrightarrow> isRawCompilerOptions w t"
  by (simp add: isCompilerOptions_def isRawCompilerOptions_def)

lemma not_object_discriminators:
  "\<not> isParsedCommandLine w (TString s)" "\<not> isRawCompilerOptions w (TString s)"
  "\<not> isParsedCommandLine w (TFunction f)" "\<not> isRawCompilerOptions w (TFunction f)"
  "\<not> isParsedCommandLine w TUndefined" "\<not> isRawCompilerOptions w TUndefined"
  "\<not> isParsedCommandLine w TNull" "\<not> isRawCompilerOptions w TNull"
  by (simp_all add: isParsedCommandLine_iff isRawCompilerOptions_iff)

lemma tsconfig_file_argument_simps:
  "tsconfig_file_argument w (TString s) = Some s"
  "tsconfig_file_argument w (TFunction f) = Some ''tsconfig.json''"
  "tsconfig_file_argument w TUndefined = Some ''tsconfig.json''"
  "tsconfig_file_argument w TNull = Some ''tsconfig.json''"
  "tsconfig_file_argument w (TObject r) =
     (if prop_options (objects w r) = None \<and> prop_hook (objects w r) \<noteq> None
      then prop_fileName (objects w r) else None)"
  by (auto simp: tsconfig_file_argument_def isTsConfigResolverWithFileName_iff
      isTsConfigResolver_def)

section \<open>Auxiliary facts: the outcome of each branch\<close>

lemma endsWith_suffix: "endsWith file ext \<longleftrightarrow> suffix ext file"
proof
  assume "endsWith file ext"
  then have "file = take (length file - length ext) file @ ext"
    unfolding endsWith_def by (metis append_take_drop_id)
  then show "suffix ext file" by (rule suffixI)
next
  assume "suffix ext file"
  then obtain pre where "file = pre @ ext" by (auto simp: suffix_def)
  then show "endsWith file ext" by (simp add: endsWith_def)
qed

text \<open>The statement after the branches on a fresh object.\<close>

lemma keep_declaration_files_fresh':
  "alloc (object_of_parsed parsed) w = (p, w1) \<Longrightarrow>
   keep_declaration_files tc p w1 = Inr (store_parsed tc (options parsed) parsed w)"
  by (auto simp: alloc_def keep_declaration_files_def update_object_def object_of_parsed_def
      store_parsed_def)

lemma alloc_ref: "alloc obj w = (p, w1) \<Longrightarrow> p = next_ref w"
  by (auto simp: alloc_def)

lemma thrown_simps:
  "thrown (Inl (e, w)) = Some e"
  "thrown (Inr rw) = None"
  by (simp_all add: thrown_def split: prod.splits)


lemma filter_and_return_error: "filter_and_return tc (Inl e) = Inl e"
  by (simp add: filter_and_return_def)

text \<open>The outcome of each branch.\<close>

lemma getParsedCommandLine_parsed:
  assumes "tsconfig opts = TObject r"
    and "prop_options (objects w r) = Some base"
    and "prop_hook (objects w r) = None"
  shows "getParsedCommandLine tc opts w =
     (case prop_fileNames (objects w r) of
        None \<Rightarrow>
         Inl (TypeError ''fileNames'',
           w\<lparr>objects := (objects w)(r := (objects w r)
              \<lparr>prop_options := Some (base ++ options_or_empty (forcedCompilerOptions opts))\<rparr>)\<rparr>)
      | Some files \<Rightarrow>
         Inr (\<lparr>parsedCommandLine = r, originalCompilerOptions = base\<rparr>,
           w\<lparr>objects := (objects w)(r := (objects w r)
              \<lparr>prop_options := Some (base ++ options_or_empty (forcedCompilerOptions opts)),
               prop_fileNames :=
                 Some (filter (\<lambda>file. endsWith file (DECLARATION_EXTENSION tc)) files)\<rparr>)\<rparr>))"
proof -
  have "isParsedCommandLine w (tsconfig opts)"
    using assms by (simp add: isParsedCommandLine_iff)
  then show ?thesis
    using assms
    by (simp add: getParsedCommandLine_def filter_and_return_def use_parsed_command_line_def
        keep_declaration_files_def update_object_def split: option.splits)
qed

lemma getParsedCommandLine_compiler_options:
  assumes "tsconfig opts = TObject r"
    and "isCompilerOptions w (TObject r)"
  shows "getParsedCommandLine tc opts w =
     Inr (\<lparr>parsedCommandLine = next_ref w,
           originalCompilerOptions =
             options (parseJsonConfigFileContent tc (JObj Map.empty) (cwd opts)
               (Some (own_properties (objects w r))) None)\<rparr>,
          store_parsed tc
            (options (parseJsonConfigFileContent tc (JObj Map.empty) (cwd opts)
               (Some (own_properties (objects w r) ++ options_or_empty (forcedCompilerOptions opts))) None))
            (parseJsonConfigFileContent tc (JObj Map.empty) (cwd opts)
               (Some (own_properties (objects w r) ++ options_or_empty (forcedCompilerOptions opts))) None)
            (w\<lparr>fs_calls := fs_calls w
               @ map ViaSys
                   (sys_calls tc (JObj Map.empty) (cwd opts) (Some (own_properties (objects w r))) None
                    @ sys_calls tc (JObj Map.empty) (cwd opts)
                        (Some (own_properties (objects w r)
                                 ++ options_or_empty (forcedCompilerOptions opts))) None)\<rparr>))"
proof -
  have "\<not> isParsedCommandLine w (tsconfig opts)"
    using assms isCompilerOptions_raw [OF assms(2)]
    by (auto simp: isParsedCommandLine_iff isRawCompilerOptions_iff)
  then show ?thesis
    using assms
    by (auto simp: getParsedCommandLine_def filter_and_return_def use_compiler_options_def Let_def
        keep_declaration_files_fresh' call_parser_def dest: alloc_ref split: prod.splits)
qed

lemma getParsedCommandLine_raw:
  assumes "tsconfig opts = TObject r"
    and "isRawCompilerOptions w (TObject r)"
    and "\<not> isCompilerOptions w (TObject r)"
  shows "getParsedCommandLine tc opts w =
     Inr (\<lparr>parsedCommandLine = next_ref w,
           originalCompilerOptions =
             options (parseJsonConfigFileContent tc
               (JObj (Map.empty(''compilerOptions'' \<mapsto> JObj (own_properties (objects w r)))))
               (cwd opts) None None)\<rparr>,
          store_parsed tc
            (options (parseJsonConfigFileContent tc
               (JObj (Map.empty(''compilerOptions'' \<mapsto> JObj (own_properties (objects w r)))))
               (cwd opts) (Some (options_or_empty (forcedCompilerOptions opts))) None))
            (parseJsonConfigFileContent tc
               (JObj (Map.empty(''compilerOptions'' \<mapsto> JObj (own_properties (objects w r)))))
               (cwd opts) (Some (options_or_empty (forcedCompilerOptions opts))) None)
            (w\<lparr>fs_calls := fs_calls w
               @ map ViaSys
                   (sys_calls tc
                      (JObj (Map.empty(''compilerOptions'' \<mapsto> JObj (own_properties (objects w r)))))
                      (cwd opts) None None
                    @ sys_calls tc
                        (JObj (Map.empty(''compilerOptions'' \<mapsto> JObj (own_properties (objects w r)))))
                        (cwd opts) (Some (options_or_empty (forcedCompilerOptions opts))) None)\<rparr>))"
proof -
  have "\<not> isParsedCommandLine w (tsconfig opts)"
    using assms by (auto simp: isParsedCommandLine_iff isRawCompilerOptions_iff)
  then show ?thesis
    using assms
    by (auto simp: getParsedCommandLine_def filter_and_return_def use_raw_compiler_options_def Let_def
        keep_declaration_files_fresh' call_parser_def dest: alloc_ref split: prod.splits)
qed

lemma getParsedCommandLine_last_branch:
  assumes "\<not> isParsedCommandLine w (tsconfig opts)"
    and "\<not> isRawCompilerOptions w (tsconfig opts)"
  shows "getParsedCommandLine tc opts w =
     (case tsconfig_file_argument w (tsconfig opts) of
        None \<Rightarrow> Inl (TypeError ''path'', w)
      | Some name \<Rightarrow>
          if fileExistsSync tc (ensureAbsolute tc (cwd opts) name)
          then filter_and_return tc
                 (parse_and_extend tc (cwd opts) (options_or_empty (forcedCompilerOptions opts))
                    (tsconfig opts) (ensureAbsolute tc (cwd opts) name)
                    (readFileSync tc (ensureAbsolute tc (cwd opts) name))
                    (w\<lparr>fs_calls := fs_calls w @ [FileExists (ensureAbsolute tc (cwd opts) name),
                                                   ReadFile (ensureAbsolute tc (cwd opts) name)]\<rparr>))
          else if nullish (tsconfig opts)
          then filter_and_return tc
                 (parse_and_extend tc (cwd opts) (options_or_empty (forcedCompilerOptions opts))
                    (tsconfig opts) (ensureAbsolute tc (cwd opts) name) []
                    (w\<lparr>fs_calls := fs_calls w @ [FileExists (ensureAbsolute tc (cwd opts) name)]\<rparr>))
          else Inl (ReferenceError (missing_tsconfig_message (ensureAbsolute tc (cwd opts) name)),
                    w\<lparr>fs_calls := fs_calls w @ [FileExists (ensureAbsolute tc (cwd opts) name)]\<rparr>))"
proof -
  have "\<not> isCompilerOptions w (tsconfig opts)"
    using assms(2) isCompilerOptions_raw by blast
  then show ?thesis
    using assms
    by (simp add: getParsedCommandLine_def resolve_and_parse_def Let_def filter_and_return_error
        split: option.splits)
qed

lemma parse_and_extend_outcome:
  assumes "allocated w t"
  shows "filter_and_return tc (parse_and_extend tc dir forced t path content w)
           = parsed_outcome tc dir forced (resolver_hook w t) path content w"
proof (cases t)
  case (TObject r)
  then have r: "r \<noteq> next_ref w" using assms by simp
  show ?thesis
    using TObject r
    by (auto simp: parse_and_extend_def call_parser_def parsed_outcome_def filter_and_return_def
        Let_def isTsConfigResolver_def isTsConfigResolverWithFileName_iff apply_hook_def
        keep_declaration_files_def update_object_def alloc_def object_of_parsed_def
        store_parsed_def)
qed (auto simp: parse_and_extend_def call_parser_def parsed_outcome_def filter_and_return_def
        Let_def isTsConfigResolver_def isTsConfigResolverWithFileName_iff apply_hook_def
        keep_declaration_files_def update_object_def alloc_def object_of_parsed_def
        store_parsed_def)

lemma parse_and_extend_returns:
  "\<exists>res w'. filter_and_return tc (parse_and_extend tc dir forced t path content w) = Inr (res, w')"
  by (auto simp: parse_and_extend_def call_parser_def filter_and_return_def
      keep_declaration_files_def update_object_def alloc_def Let_def object_of_parsed_def
      isTsConfigResolver_def isTsConfigResolverWithFileName_iff
      split: tsconfig_input.splits option.splits)


lemma getParsedCommandLine_resolved:
  assumes "\<not> isParsedCommandLine w (tsconfig opts)"
    and "\<not> isRawCompilerOptions w (tsconfig opts)"
    and "allocated w (tsconfig opts)"
  shows "getParsedCommandLine tc opts w =
     (case tsconfig_file_argument w (tsconfig opts) of
        None \<Rightarrow> Inl (TypeError ''path'', w)
      | Some name \<Rightarrow>
          if fileExistsSync tc (ensureAbsolute tc (cwd opts) name)
          then parsed_outcome tc (cwd opts) (options_or_empty (forcedCompilerOptions opts))
                 (resolver_hook w (tsconfig opts)) (ensureAbsolute tc (cwd opts) name)
                 (readFileSync tc (ensureAbsolute tc (cwd opts) name))
                 (w\<lparr>fs_calls := fs_calls w @ [FileExists (ensureAbsolute tc (cwd opts) name),
                                                ReadFile (ensureAbsolute tc (cwd opts) name)]\<rparr>)
          else if nullish (tsconfig opts)
          then parsed_outcome tc (cwd opts) (options_or_empty (forcedCompilerOptions opts))
                 (resolver_hook w (tsconfig opts)) (ensureAbsolute tc (cwd opts) name) []
                 (w\<lparr>fs_calls := fs_calls w @ [FileExists (ensureAbsolute tc (cwd opts) name)]\<rparr>)
          else Inl (ReferenceError (missing_tsconfig_message (ensureAbsolute tc (cwd opts) name)),
                    w\<lparr>fs_calls := fs_calls w @ [FileExists (ensureAbsolute tc (cwd opts) name)]\<rparr>))"
proof -
  have nc: "\<not> isCompilerOptions w (tsconfig opts)"
    using assms(2) isCompilerOptions_raw by blast
  have a1: "allocated (w\<lparr>fs_calls := cs\<rparr>) (tsconfig opts)" for cs
    using assms(3) by (cases "tsconfig opts") auto
  have h1: "resolver_hook (w\<lparr>fs_calls := cs\<rparr>) (tsconfig opts) = resolver_hook w (tsconfig opts)" for cs
    by (cases "tsconfig opts") auto
  show ?thesis
    using assms(1,2) nc
    by (simp add: getParsedCommandLine_def resolve_and_parse_def Let_def
        parse_and_extend_outcome [OF a1] h1 filter_and_return_error
        split: option.splits)
qed

lemma missing_tsconfig_message_names_path: "sublist path (missing_tsconfig_message path)"
  unfolding missing_tsconfig_message_def sublist_def
  by (rule exI [of _ "''The given tsconfig: '' @ [CHR 0x27]"],
      rule exI [of _ "[CHR 0x27] @ '' doesn'' @ [CHR 0x27] @ ''t exist!''"]) simp

section \<open>Auxiliary facts: original and canonical options\<close>

lemma original_options_without_hook:
  assumes "\<not> isTsConfigResolver (tsconfig opts)"
    and "\<not> isTsConfigResolverWithFileName w (tsconfig opts)"
  shows "original_options (getParsedCommandLine tc (opts\<lparr>forcedCompilerOptions := forced\<rparr>) w)
       = original_options (getParsedCommandLine tc opts w)"
proof (cases "isParsedCommandLine w (tsconfig opts)")
  case True
  then obtain r base where
    t: "tsconfig opts = TObject r" and b: "prop_options (objects w r) = Some base"
    and h: "prop_hook (objects w r) = None"
    by (auto simp: isParsedCommandLine_iff)
  have t': "tsconfig (opts\<lparr>forcedCompilerOptions := forced\<rparr>) = TObject r"
    using t by simp
  show ?thesis
    by (simp add: getParsedCommandLine_parsed [OF t b h] getParsedCommandLine_parsed [OF t' b h]
        original_options_def split: option.splits)
next
  case notParsed: False
  show ?thesis
  proof (cases "isRawCompilerOptions w (tsconfig opts)")
    case raw: True
    then obtain r where t: "tsconfig opts = TObject r"
      by (auto simp: isRawCompilerOptions_iff)
    have t': "tsconfig (opts\<lparr>forcedCompilerOptions := forced\<rparr>) = TObject r"
      using t by simp
    show ?thesis
    proof (cases "isCompilerOptions w (TObject r)")
      case True
      show ?thesis
        by (simp add: getParsedCommandLine_compiler_options [OF t True]
            getParsedCommandLine_compiler_options [OF t' True] original_options_def)
    next
      case False
      from raw t have raw': "isRawCompilerOptions w (TObject r)" by simp
      show ?thesis
        by (simp add: getParsedCommandLine_raw [OF t raw' False]
            getParsedCommandLine_raw [OF t' raw' False] original_options_def)
    qed
  next
    case notRaw: False
    have np: "\<not> isParsedCommandLine w (tsconfig (opts\<lparr>forcedCompilerOptions := forced\<rparr>))"
      and nr: "\<not> isRawCompilerOptions w (tsconfig (opts\<lparr>forcedCompilerOptions := forced\<rparr>))"
      using notParsed notRaw by simp_all
    show ?thesis
    proof (cases "\<exists>r. tsconfig opts = TObject r")
      case True
      then obtain r where t: "tsconfig opts = TObject r" by blast
      with assms notParsed notRaw have "tsconfig_file_argument w (tsconfig opts) = None"
        by (auto simp: tsconfig_file_argument_simps isParsedCommandLine_iff
            isRawCompilerOptions_iff isTsConfigResolverWithFileName_iff)
      then show ?thesis
        by (simp add: getParsedCommandLine_last_branch [OF notParsed notRaw]
            getParsedCommandLine_last_branch [OF np nr])
    next
      case False
      with assms(1) have a: "allocated w (tsconfig opts)"
        and h: "resolver_hook w (tsconfig opts) = None"
        by (cases "tsconfig opts"; simp add: isTsConfigResolver_iff)+
      have a': "allocated w (tsconfig (opts\<lparr>forcedCompilerOptions := forced\<rparr>))"
        using a by simp
      show ?thesis
        by (simp add: getParsedCommandLine_resolved [OF notParsed notRaw a]
            getParsedCommandLine_resolved [OF np nr a'] h original_options_def parsed_outcome_def
            apply_hook_def Let_def split: option.splits)
    qed
  qed
qed

lemma original_options_with_hook:
  assumes "resolver_hook w (tsconfig opts) = Some f"
    and "allocated w (tsconfig opts)"
    and "getParsedCommandLine tc opts w = Inr (res, w')"
  shows "\<exists>name. tsconfig_file_argument w (tsconfig opts) = Some name
           \<and> fileExistsSync tc (ensureAbsolute tc (cwd opts) name)
           \<and> originalCompilerOptions res
               = f (options (parseJsonConfigFileContent tc
                      (parseConfigFileTextToJson tc (ensureAbsolute tc (cwd opts) name)
                         (readFileSync tc (ensureAbsolute tc (cwd opts) name)))
                      (cwd opts) (Some Map.empty) (Some (ensureAbsolute tc (cwd opts) name))))
                 ++ options_or_empty (forcedCompilerOptions opts)"
proof -
  from assms(1) have np: "\<not> isParsedCommandLine w (tsconfig opts)"
    and nr: "\<not> isRawCompilerOptions w (tsconfig opts)"
    and nn: "\<not> nullish (tsconfig opts)"
    by (cases "tsconfig opts"; auto simp: isParsedCommandLine_iff isRawCompilerOptions_iff
        split: if_splits)+
  from assms(3) show ?thesis
    unfolding getParsedCommandLine_resolved [OF np nr assms(2)]
    by (auto simp: parsed_outcome_def assms(1) apply_hook_def Let_def nn
        split: option.splits if_splits)
qed

text \<open>
  A parser that lays the existing options over what it parses, except on the keys of
  \<open>owned\<close>, which it assigns itself whatever the existing options say.
\<close>

lemma parser_overlay_forced:
  assumes overlay: "\<And>json dir existing name k. k \<notin> owned \<Longrightarrow>
      options (parseJsonConfigFileContent tc json dir existing name) k
        = (options (parseJsonConfigFileContent tc json dir None name) ++ options_or_empty existing) k"
    and own: "\<And>json dir existing name k. k \<in> owned \<Longrightarrow>
      options (parseJsonConfigFileContent tc json dir existing name) k
        = options (parseJsonConfigFileContent tc json dir None name) k"
    and disjoint: "dom forced \<inter> owned = {}"
  shows "options (parseJsonConfigFileContent tc json dir (Some (given ++ forced)) name)
           = options (parseJsonConfigFileContent tc json dir (Some given) name) ++ forced"
    and "options (parseJsonConfigFileContent tc json dir (Some forced) name)
           = options (parseJsonConfigFileContent tc json dir None name) ++ forced"
    and "options (parseJsonConfigFileContent tc json dir (Some forced) name)
           = options (parseJsonConfigFileContent tc json dir (Some Map.empty) name) ++ forced"
proof -
  have f: "forced k = None" if "k \<in> owned" for k
    using disjoint that by auto
  show "options (parseJsonConfigFileContent tc json dir (Some (given ++ forced)) name)
           = options (parseJsonConfigFileContent tc json dir (Some given) name) ++ forced"
  proof (rule ext)
    fix k
    show "options (parseJsonConfigFileContent tc json dir (Some (given ++ forced)) name) k
           = (options (parseJsonConfigFileContent tc json dir (Some given) name) ++ forced) k"
    proof (cases "k \<in> owned")
      case True
      then show ?thesis
        using own [OF True, of json dir "Some (given ++ forced)" name]
              own [OF True, of json dir "Some given" name] f [OF True]
        by (simp add: map_add_def)
    next
      case False
      then show ?thesis
        using overlay [OF False, of json dir "Some (given ++ forced)" name]
              overlay [OF False, of json dir "Some given" name]
        by (simp add: map_add_def options_or_empty_def split: option.splits)
    qed
  qed
  show 2: "options (parseJsonConfigFileContent tc json dir (Some forced) name)
           = options (parseJsonConfigFileContent tc json dir None name) ++ forced"
  proof (rule ext)
    fix k
    show "options (parseJsonConfigFileContent tc json dir (Some forced) name) k
           = (options (parseJsonConfigFileContent tc json dir None name) ++ forced) k"
    proof (cases "k \<in> owned")
      case True
      then show ?thesis
        using own [OF True, of json dir "Some forced" name] f [OF True]
        by (simp add: map_add_def)
    next
      case False
      then show ?thesis
        using overlay [OF False, of json dir "Some forced" name]
        by (simp add: options_or_empty_def)
    qed
  qed
  have "options (parseJsonConfigFileContent tc json dir (Some Map.empty) name)
           = options (parseJsonConfigFileContent tc json dir None name)"
  proof (rule ext)
    fix k
    show "options (parseJsonConfigFileContent tc json dir (Some Map.empty) name) k
           = options (parseJsonConfigFileContent tc json dir None name) k"
      using own [of k json dir "Some Map.empty" name] overlay [of k json dir "Some Map.empty" name]
      by (cases "k \<in> owned") (simp_all add: options_or_empty_def)
  qed
  with 2 show "options (parseJsonConfigFileContent tc json dir (Some forced) name)
           = options (parseJsonConfigFileContent tc json dir (Some Map.empty) name) ++ forced"
    by simp
qed

lemma canonical_original_plus_forced:
  assumes overlay: "\<And>json dir existing name k. k \<notin> owned \<Longrightarrow>
      options (parseJsonConfigFileContent tc json dir existing name) k
        = (options (parseJsonConfigFileContent tc json dir None name) ++ options_or_empty existing) k"
    and own: "\<And>json dir existing name k. k \<in> owned \<Longrightarrow>
      options (parseJsonConfigFileContent tc json dir existing name) k
        = options (parseJsonConfigFileContent tc json dir None name) k"
    and disjoint: "dom (options_or_empty (forcedCompilerOptions opts)) \<inter> owned = {}"
    and "\<not> isTsConfigResolver (tsconfig opts)"
    and "\<not> isTsConfigResolverWithFileName w (tsconfig opts)"
    and run: "getParsedCommandLine tc opts w = Inr (res, w')"
  shows "prop_options (objects w' (parsedCommandLine res))
           = Some (originalCompilerOptions res ++ options_or_empty (forcedCompilerOptions opts))"
proof -
  note ov = parser_overlay_forced [of owned tc, OF overlay own disjoint]
  show ?thesis
  proof (cases "isParsedCommandLine w (tsconfig opts)")
    case True
    then obtain r base where
      t: "tsconfig opts = TObject r" and b: "prop_options (objects w r) = Some base"
      and h: "prop_hook (objects w r) = None"
      by (auto simp: isParsedCommandLine_iff)
    from run show ?thesis
      unfolding getParsedCommandLine_parsed [OF t b h]
      by (auto split: option.splits)
  next
    case notParsed: False
    show ?thesis
    proof (cases "isRawCompilerOptions w (tsconfig opts)")
      case raw: True
      then obtain r where t: "tsconfig opts = TObject r"
        by (auto simp: isRawCompilerOptions_iff)
      show ?thesis
      proof (cases "isCompilerOptions w (TObject r)")
        case True
        from run show ?thesis
          unfolding getParsedCommandLine_compiler_options [OF t True]
          by (auto simp: store_parsed_def ov(1))
      next
        case False
        from raw t have raw': "isRawCompilerOptions w (TObject r)" by simp
        from run show ?thesis
          unfolding getParsedCommandLine_raw [OF t raw' False]
          by (auto simp: store_parsed_def ov(2))
      qed
    next
      case notRaw: False
      show ?thesis
      proof (cases "\<exists>r. tsconfig opts = TObject r")
        case True
        then obtain r where t: "tsconfig opts = TObject r" by blast
        with assms(4,5) notParsed notRaw have "tsconfig_file_argument w (tsconfig opts) = None"
          by (auto simp: tsconfig_file_argument_simps isParsedCommandLine_iff
              isRawCompilerOptions_iff isTsConfigResolverWithFileName_iff)
        with run show ?thesis
          by (simp add: getParsedCommandLine_last_branch [OF notParsed notRaw])
      next
        case False
        with assms(4) have a: "allocated w (tsconfig opts)"
          and h: "resolver_hook w (tsconfig opts) = None"
          by (cases "tsconfig opts"; simp add: isTsConfigResolver_iff)+
        from run show ?thesis
          unfolding getParsedCommandLine_resolved [OF notParsed notRaw a]
          by (auto simp: parsed_outcome_def store_parsed_def h apply_hook_def Let_def ov(3)
              split: option.splits if_splits)
      qed
    qed
  qed
qed

section \<open>The sample project evaluated\<close>

lemma sample_toolchain_simps:
  "fileExistsSync sample_toolchain path = (path = ''/project/tsconfig.json'')"
  "ensureAbsolute sample_toolchain root path = (if take 1 path = ''/'' then path else root @ ''/'' @ path)"
  "DECLARATION_EXTENSION sample_toolchain = ''.d.ts''"
  "parseJsonConfigFileContent sample_toolchain = sample_parse"
  "sys_calls sample_toolchain json dir existing name = [SysReadDirectory dir]"
  "parseConfigFileTextToJson sample_toolchain fileName text =
     (if text = [] then JObj Map.empty
      else JObj (Map.empty(''compilerOptions'' \<mapsto> JObj (Map.empty(''strict'' \<mapsto> JBool True)))))"
  by (simp_all add: sample_toolchain_def)

lemma sample_file_content: "readFileSync sample_toolchain path \<noteq> []"
  by (simp add: sample_toolchain_def)

lemma sample_objects:
  "objects sample_world 10 = empty_object
            \<lparr>prop_options := Some sample_options,
             prop_fileNames := Some [''/project/src/index.ts'', ''/project/typings/globals.d.ts''],
             prop_errors := Some []\<rparr>"
  "objects sample_world 11 = empty_object\<lparr>prop_rest := Map.empty(''target'' \<mapsto> JNum 6)\<rparr>"
  "objects sample_world 12 = empty_object\<lparr>prop_rest := Map.empty(''target'' \<mapsto> JStr ''ES2019'')\<rparr>"
  "objects sample_world 13 = empty_object
            \<lparr>prop_fileName := Some ''tsconfig.json'', prop_hook := Some sample_hook\<rparr>"
  "objects sample_world 20 = empty_object\<lparr>prop_options := Some sample_options\<rparr>"
  "next_ref sample_world = 21"
  "fs_calls sample_world = []"
  by (simp_all add: sample_world_def)

lemma sample_call_simps:
  "cwd (sample_call t forced) = ''/project''"
  "tsconfig (sample_call t forced) = t"
  "forcedCompilerOptions (sample_call t forced) = forced"
  by (simp_all add: sample_call_def)

lemma sample_files:
  "\<not> endsWith ''/project/src/index.ts'' ''.d.ts''"
  "endsWith ''/project/typings/globals.d.ts'' ''.d.ts''"
  by (simp_all add: endsWith_def)

lemma sample_config:
  "sample_config_options (JObj Map.empty) = Map.empty"
  "sample_config_options
     (JObj (Map.empty(''compilerOptions'' \<mapsto> JObj (Map.empty(''strict'' \<mapsto> JBool True)))))
   = Map.empty(''strict'' \<mapsto> JBool True)"
  by (simp_all add: sample_config_options_def)

lemma sample_parse_simps:
  "options (sample_parse json dir existing name)
     = (sample_config_options json ++ options_or_empty existing)
         (''configFilePath'' \<mapsto> (case name of None \<Rightarrow> JUndefined | Some n \<Rightarrow> JStr n))"
  "fileNames (sample_parse json dir existing name)
     = [''/project/src/index.ts'', ''/project/typings/globals.d.ts'']"
  "errors (sample_parse json dir existing name) = []"
  by (simp_all add: sample_parse_def)

lemma sample_options_lookup:
  "sample_options ''declaration'' = None"
  "sample_options ''declarationMap'' = None"
  "(sample_options ++ sample_forced) ''declaration'' = Some (JBool True)"
  "(sample_options ++ sample_forced) ''declarationMap'' = None"
  "sample_forced ''declaration'' = Some (JBool True)"
  by (simp_all add: sample_options_def sample_forced_def)

lemma sample_hook_simps:
  "sample_hook sample_options = sample_options"
  "sample_hook (sample_options ++ sample_forced)
     = (sample_options ++ sample_forced)(''declarationMap'' \<mapsto> JBool True)"
  by (simp_all add: sample_hook_def sample_options_lookup)

lemma sample_parsed_run:
  "getParsedCommandLine sample_toolchain (sample_call (TObject 10) forced) sample_world
   = Inr (\<lparr>parsedCommandLine = 10, originalCompilerOptions = sample_options\<rparr>,
          sample_world\<lparr>objects := (objects sample_world)(10 := (objects sample_world 10)
            \<lparr>prop_options := Some (sample_options ++ options_or_empty forced),
             prop_fileNames := Some [''/project/typings/globals.d.ts'']\<rparr>)\<rparr>)"
proof -
  have t: "tsconfig (sample_call (TObject 10) forced) = TObject 10"
    by (simp add: sample_call_simps)
  show ?thesis
    by (simp add: getParsedCommandLine_parsed [OF t, of _ sample_options]
        sample_objects empty_object_def sample_call_simps sample_toolchain_simps sample_files)
qed


text \<open>Every call in the sample project that reaches the last branch and finds the file.\<close>

lemma sample_resolved_run:
  assumes "tsconfig_file_argument sample_world t = Some ''tsconfig.json''"
    and "\<not> isParsedCommandLine sample_world t"
    and "\<not> isRawCompilerOptions sample_world t"
    and "allocated sample_world t"
  shows "getParsedCommandLine sample_toolchain (sample_call t forced) sample_world =
     Inr (\<lparr>parsedCommandLine = 21,
            originalCompilerOptions =
              apply_hook (resolver_hook sample_world t) (options_or_empty forced) sample_options\<rparr>,
          sample_world
            \<lparr>objects := (objects sample_world)(21 :=
               \<lparr>prop_options =
                  Some (apply_hook (resolver_hook sample_world t) (options_or_empty forced)
                          ((Map.empty(''strict'' \<mapsto> JBool True) ++ options_or_empty forced)
                             (''configFilePath'' \<mapsto> JStr ''/project/tsconfig.json''))),
                prop_hook = None, prop_fileName = None,
                prop_fileNames = Some [''/project/typings/globals.d.ts''],
                prop_errors = Some [], prop_rest = Map.empty\<rparr>),
             next_ref := 22,
             fs_calls := [FileExists ''/project/tsconfig.json'', ReadFile ''/project/tsconfig.json'',
                          ViaSys (SysReadDirectory ''/project''),
                          ViaSys (SysReadDirectory ''/project'')]\<rparr>)"
proof -
  have h: "resolver_hook (sample_world\<lparr>fs_calls := cs\<rparr>) t = resolver_hook sample_world t" for cs
    by (cases t) auto
  have o: "(Map.empty(''strict'' \<mapsto> JBool True))(''configFilePath'' \<mapsto> JStr ''/project/tsconfig.json'')
             = sample_options"
    by (simp add: sample_options_def)
  show ?thesis
    using assms
    by (simp add: getParsedCommandLine_resolved sample_call_simps sample_toolchain_simps
        parsed_outcome_def store_parsed_def sample_parse_simps sample_config sample_files
        sample_objects options_or_empty_def sample_file_content h o)
qed

lemma sample_path_run:
  "getParsedCommandLine sample_toolchain (sample_call (TString ''tsconfig.json'') forced) sample_world =
     Inr (\<lparr>parsedCommandLine = 21, originalCompilerOptions = sample_options\<rparr>,
          sample_world
            \<lparr>objects := (objects sample_world)(21 :=
               \<lparr>prop_options =
                  Some ((Map.empty(''strict'' \<mapsto> JBool True) ++ options_or_empty forced)
                          (''configFilePath'' \<mapsto> JStr ''/project/tsconfig.json'')),
                prop_hook = None, prop_fileName = None,
                prop_fileNames = Some [''/project/typings/globals.d.ts''],
                prop_errors = Some [], prop_rest = Map.empty\<rparr>),
             next_ref := 22,
             fs_calls := [FileExists ''/project/tsconfig.json'', ReadFile ''/project/tsconfig.json'',
                          ViaSys (SysReadDirectory ''/project''),
                          ViaSys (SysReadDirectory ''/project'')]\<rparr>)"
  using sample_resolved_run [of "TString ''tsconfig.json''" forced]
  by (simp add: tsconfig_file_argument_simps not_object_discriminators apply_hook_def)

lemma sample_function_run:
  "getParsedCommandLine sample_toolchain (sample_call (TFunction f) forced) sample_world =
     Inr (\<lparr>parsedCommandLine = 21,
            originalCompilerOptions = f sample_options ++ options_or_empty forced\<rparr>,
          sample_world
            \<lparr>objects := (objects sample_world)(21 :=
               \<lparr>prop_options =
                  Some (f ((Map.empty(''strict'' \<mapsto> JBool True) ++ options_or_empty forced)
                             (''configFilePath'' \<mapsto> JStr ''/project/tsconfig.json''))
                          ++ options_or_empty forced),
                prop_hook = None, prop_fileName = None,
                prop_fileNames = Some [''/project/typings/globals.d.ts''],
                prop_errors = Some [], prop_rest = Map.empty\<rparr>),
             next_ref := 22,
             fs_calls := [FileExists ''/project/tsconfig.json'', ReadFile ''/project/tsconfig.json'',
                          ViaSys (SysReadDirectory ''/project''),
                          ViaSys (SysReadDirectory ''/project'')]\<rparr>)"
  using sample_resolved_run [of "TFunction f" forced]
  by (simp add: tsconfig_file_argument_simps not_object_discriminators apply_hook_def)

lemma sample_hook_record_run:
  "getParsedCommandLine sample_toolchain (sample_call (TObject 13) forced) sample_world =
     Inr (\<lparr>parsedCommandLine = 21,
            originalCompilerOptions = sample_hook sample_options ++ options_or_empty forced\<rparr>,
          sample_world
            \<lparr>objects := (objects sample_world)(21 :=
               \<lparr>prop_options =
                  Some (sample_hook ((Map.empty(''strict'' \<mapsto> JBool True) ++ options_or_empty forced)
                             (''configFilePath'' \<mapsto> JStr ''/project/tsconfig.json''))
                          ++ options_or_empty forced),
                prop_hook = None, prop_fileName = None,
                prop_fileNames = Some [''/project/typings/globals.d.ts''],
                prop_errors = Some [], prop_rest = Map.empty\<rparr>),
             next_ref := 22,
             fs_calls := [FileExists ''/project/tsconfig.json'', ReadFile ''/project/tsconfig.json'',
                          ViaSys (SysReadDirectory ''/project''),
                          ViaSys (SysReadDirectory ''/project'')]\<rparr>)"
  using sample_resolved_run [of "TObject 13" forced]
  by (simp add: tsconfig_file_argument_simps isParsedCommandLine_iff isRawCompilerOptions_iff
      apply_hook_def sample_objects empty_object_def)

lemma sample_forced_overlay:
  "(Map.empty(''strict'' \<mapsto> JBool True) ++ sample_forced)
       (''configFilePath'' \<mapsto> JStr ''/project/tsconfig.json'')
     = sample_options ++ sample_forced"
  by (rule ext) (simp add: sample_options_def sample_forced_def map_add_def)

lemma sample_elsewhere_run:
  "getParsedCommandLine sample_toolchain
     \<lparr>cwd = ''/elsewhere'', tsconfig = TFunction sample_hook, forcedCompilerOptions = None\<rparr>
     sample_world
   = Inl (ReferenceError (missing_tsconfig_message ''/elsewhere/tsconfig.json''),
          sample_world\<lparr>fs_calls := [FileExists ''/elsewhere/tsconfig.json'']\<rparr>)"
  by (simp add: getParsedCommandLine_last_branch not_object_discriminators
      tsconfig_file_argument_simps sample_toolchain_simps sample_objects)

lemma own_properties_rest:
  assumes "m ''options'' = None" "m ''hook'' = None" "m ''fileName'' = None"
    "m ''fileNames'' = None" "m ''errors'' = None"
  shows "own_properties (empty_object\<lparr>prop_rest := m\<rparr>) = m"
  using assms by (intro ext) (simp add: own_properties_def empty_object_def)

lemma sample_own_properties:
  "own_properties (objects sample_world 11) = Map.empty(''target'' \<mapsto> JNum 6)"
  "own_properties (objects sample_world 12) = Map.empty(''target'' \<mapsto> JStr ''ES2019'')"
  by (simp_all add: sample_objects own_properties_rest)

lemma sample_discriminators:
  "isCompilerOptions sample_world (TObject 11)"
  "isRawCompilerOptions sample_world (TObject 12)"
  "\<not> isCompilerOptions sample_world (TObject 12)"
  by (simp_all add: isCompilerOptions_def isRawCompilerOptions_iff has_property_simps
      get_property_simps sample_objects empty_object_def)

lemma sample_raw_config:
  "sample_config_options
     (JObj (Map.empty(''compilerOptions'' \<mapsto> JObj (Map.empty(''target'' \<mapsto> JStr ''ES2019'')))))
   = Map.empty(''target'' \<mapsto> JNum 6)"
  by (simp add: sample_config_options_def sample_enum_code_def sample_targets_def)

lemma sample_enum_run:
  "getParsedCommandLine sample_toolchain (sample_call (TObject 11) forced) sample_world =
     Inr (\<lparr>parsedCommandLine = 21,
            originalCompilerOptions =
              Map.empty(''target'' \<mapsto> JNum 6, ''configFilePath'' \<mapsto> JUndefined)\<rparr>,
          sample_world
            \<lparr>objects := (objects sample_world)(21 :=
               \<lparr>prop_options =
                  Some ((Map.empty(''target'' \<mapsto> JNum 6) ++ options_or_empty forced)
                          (''configFilePath'' \<mapsto> JUndefined)),
                prop_hook = None, prop_fileName = None,
                prop_fileNames = Some [''/project/typings/globals.d.ts''],
                prop_errors = Some [], prop_rest = Map.empty\<rparr>),
             next_ref := 22,
             fs_calls := [ViaSys (SysReadDirectory ''/project''),
                          ViaSys (SysReadDirectory ''/project'')]\<rparr>)"
proof -
  have t: "tsconfig (sample_call (TObject 11) forced) = TObject 11"
    by (simp add: sample_call_simps)
  show ?thesis
    by (simp add: getParsedCommandLine_compiler_options [OF t sample_discriminators(1)]
        sample_call_simps sample_toolchain_simps sample_parse_simps sample_config
        sample_own_properties store_parsed_def sample_files sample_objects(6,7) options_or_empty_def)
qed

lemma sample_raw_run:
  "getParsedCommandLine sample_toolchain (sample_call (TObject 12) forced) sample_world =
     Inr (\<lparr>parsedCommandLine = 21,
            originalCompilerOptions =
              Map.empty(''target'' \<mapsto> JNum 6, ''configFilePath'' \<mapsto> JUndefined)\<rparr>,
          sample_world
            \<lparr>objects := (objects sample_world)(21 :=
               \<lparr>prop_options =
                  Some ((Map.empty(''target'' \<mapsto> JNum 6) ++ options_or_empty forced)
                          (''configFilePath'' \<mapsto> JUndefined)),
                prop_hook = None, prop_fileName = None,
                prop_fileNames = Some [''/project/typings/globals.d.ts''],
                prop_errors = Some [], prop_rest = Map.empty\<rparr>),
             next_ref := 22,
             fs_calls := [ViaSys (SysReadDirectory ''/project''),
                          ViaSys (SysReadDirectory ''/project'')]\<rparr>)"
proof -
  have t: "tsconfig (sample_call (TObject 12) forced) = TObject 12"
    by (simp add: sample_call_simps)
  show ?thesis
    by (simp add: getParsedCommandLine_raw [OF t sample_discriminators(2,3)]
        sample_call_simps sample_toolchain_simps sample_parse_simps sample_raw_config
        sample_own_properties store_parsed_def sample_files sample_objects(6,7) options_or_empty_def)
qed

lemma sample_toolchain_overlay:
  "k \<notin> {''configFilePath''} \<Longrightarrow>
     options (parseJsonConfigFileContent sample_toolchain json dir existing name) k
       = (options (parseJsonConfigFileContent sample_toolchain json dir None name)
            ++ options_or_empty existing) k"
  "k \<in> {''configFilePath''} \<Longrightarrow>
     options (parseJsonConfigFileContent sample_toolchain json dir existing name) k
       = options (parseJsonConfigFileContent sample_toolchain json dir None name) k"
  by (simp_all add: sample_toolchain_simps sample_parse_simps options_or_empty_def map_add_def
      split: option.splits)

lemma sample_canonical:
  "canonical_options (getParsedCommandLine sample_toolchain
       (sample_call (TString ''tsconfig.json'') (Some sample_forced)) sample_world)
     = Some (sample_options ++ sample_forced)"
  "canonical_options (getParsedCommandLine sample_toolchain
       (sample_call (TObject 10) (Some sample_forced)) sample_world)
     = Some (sample_options ++ sample_forced)"
  "canonical_options (getParsedCommandLine sample_toolchain
       (sample_call (TObject 11) (Some sample_forced)) sample_world)
     = Some ((Map.empty(''target'' \<mapsto> JNum 6) ++ sample_forced)(''configFilePath'' \<mapsto> JUndefined))"
  "canonical_options (getParsedCommandLine sample_toolchain
       (sample_call (TObject 12) (Some sample_forced)) sample_world)
     = Some ((Map.empty(''target'' \<mapsto> JNum 6) ++ sample_forced)(''configFilePath'' \<mapsto> JUndefined))"
  by (simp_all add: sample_path_run sample_parsed_run sample_enum_run sample_raw_run
      canonical_options_def options_or_empty_def sample_forced_overlay)


section \<open>Properties of the resolve cache accessor\<close>

text \<open>
  C2. With \<open>preferAmbient\<close> set, the accessor returns the ambient path when the record has
  one and the concrete path otherwise; with \<open>preferAmbient\<close> unset it returns the concrete
  path field (possibly absent) whatever the ambient field holds. Scenario D is the last
  conjunct.
\<close>

theorem pickResolvedModule_selects:
  "(\<forall>a. resolvedAmbientFileName ref = Some a \<longrightarrow> pickResolvedModule ref True = Some a)
   \<and> (resolvedAmbientFileName ref = None \<longrightarrow> pickResolvedModule ref True = resolvedFileName ref)
   \<and> pickResolvedModule ref False = resolvedFileName ref
   \<and> pickResolvedModule \<lparr>resolvedFileName = Some ''/src/a.d.ts'',
          resolvedAmbientFileName = Some ''/lib/global.d.ts''\<rparr> True = Some ''/lib/global.d.ts''
   \<and> pickResolvedModule \<lparr>resolvedFileName = Some ''/src/a.d.ts'',
          resolvedAmbientFileName = Some ''/lib/global.d.ts''\<rparr> False = Some ''/src/a.d.ts''"
  by (simp add: pickResolvedModule_def nullish_coalesce_def)

theorem pickResolvedModule_selects_witness:
  "pickResolvedModule \<lparr>resolvedFileName = Some ''/src/b.d.ts'',
       resolvedAmbientFileName = Some ''/lib/dom.d.ts''\<rparr> True = Some ''/lib/dom.d.ts''
   \<and> pickResolvedModule \<lparr>resolvedFileName = Some ''/src/b.d.ts'',
       resolvedAmbientFileName = None\<rparr> True = Some ''/src/b.d.ts''"
  using pickResolvedModule_selects
          [of "\<lparr>resolvedFileName = Some ''/src/b.d.ts'', resolvedAmbientFileName = Some ''/lib/dom.d.ts''\<rparr>"]
        pickResolvedModule_selects
          [of "\<lparr>resolvedFileName = Some ''/src/b.d.ts'', resolvedAmbientFileName = None\<rparr>"]
  by simp

text \<open>
  C8. When at least one of the two fields is present, the ambient-preferring call returns
  a path. The accessor has no failing branch: its result is a plain optional path.
\<close>

theorem pickResolvedModule_ambient_defined:
  assumes "resolvedFileName ref \<noteq> None \<or> resolvedAmbientFileName ref \<noteq> None"
  shows "\<exists>p. pickResolvedModule ref True = Some p"
  using assms
  by (cases "resolvedAmbientFileName ref") (auto simp: pickResolvedModule_def nullish_coalesce_def)

theorem pickResolvedModule_ambient_defined_witness:
  "\<exists>p. pickResolvedModule \<lparr>resolvedFileName = None,
          resolvedAmbientFileName = Some ''/lib/global.d.ts''\<rparr> True = Some p"
  using pickResolvedModule_ambient_defined
          [of "\<lparr>resolvedFileName = None, resolvedAmbientFileName = Some ''/lib/global.d.ts''\<rparr>"]
  by simp

text \<open>
  C10. On a record with neither field the accessor returns the absent value for both
  values of \<open>preferAmbient\<close>; it is a total function with no error result.
\<close>

theorem pickResolvedModule_empty_record:
  assumes "resolvedFileName ref = None" and "resolvedAmbientFileName ref = None"
  shows "pickResolvedModule ref preferAmbient = None"
  using assms by (simp add: pickResolvedModule_def nullish_coalesce_def)

theorem pickResolvedModule_empty_record_witness:
  "pickResolvedModule \<lparr>resolvedFileName = None, resolvedAmbientFileName = None\<rparr> True = None
   \<and> pickResolvedModule \<lparr>resolvedFileName = None, resolvedAmbientFileName = None\<rparr> False = None"
  using pickResolvedModule_empty_record
          [of "\<lparr>resolvedFileName = None, resolvedAmbientFileName = None\<rparr>" True]
        pickResolvedModule_empty_record
          [of "\<lparr>resolvedFileName = None, resolvedAmbientFileName = None\<rparr>" False]
  by simp

section \<open>Variant discrimination\<close>

text \<open>
  A path string and a missing input satisfy none of the five discriminators; an options
  object with an enum code satisfies two of them.
\<close>

theorem discriminators_not_exactly_one:
  "count_true (discriminators sample_world (TString ''tsconfig.json'')) = 0
   \<and> count_true (discriminators sample_world TUndefined) = 0
   \<and> count_true (discriminators sample_world (TObject 11)) = 2"
  by (simp add: count_true_def discriminators_def isParsedCommandLine_iff isRawCompilerOptions_iff
      isTsConfigResolverWithFileName_iff isTsConfigResolver_iff isCompilerOptions_def
      has_property_simps get_property_simps sample_objects empty_object_def)

text \<open>
  C4, amended. Every input satisfies at most one of \<^verbatim>\<open>isParsedCommandLine\<close>,
  \<^verbatim>\<open>isRawCompilerOptions\<close>, \<^verbatim>\<open>isTsConfigResolver\<close> and
  \<^verbatim>\<open>isTsConfigResolverWithFileName\<close>. \<^verbatim>\<open>isCompilerOptions\<close> holds only where
  \<^verbatim>\<open>isRawCompilerOptions\<close> holds too, so an input satisfies two discriminators exactly when it
  is an options object with an enum code, and never more than two. The inputs that satisfy
  none are the missing input, the path strings, and the objects that have both an
  \<^verbatim>\<open>options\<close> and a \<^verbatim>\<open>hook\<close> property.
\<close>

theorem discriminators_overlap:
  "count_true [isParsedCommandLine w t, isRawCompilerOptions w t, isTsConfigResolver t,
               isTsConfigResolverWithFileName w t] \<le> 1
   \<and> (isCompilerOptions w t \<longrightarrow> isRawCompilerOptions w t)
   \<and> (count_true (discriminators w t) = 0
        \<longleftrightarrow> nullish t \<or> typeof t = ''string''
            \<or> (typeof t = ''object'' \<and> key_in w ''options'' t \<and> key_in w ''hook'' t))
   \<and> (count_true (discriminators w t) = 2 \<longleftrightarrow> isCompilerOptions w t)
   \<and> count_true (discriminators w t) \<le> 2"
  by (cases t) (auto simp: count_true_def discriminators_def discriminator_defs)

theorem discriminators_overlap_witness:
  "isCompilerOptions sample_world (TObject 11) \<and> isRawCompilerOptions sample_world (TObject 11)
   \<and> count_true (discriminators sample_world (TObject 11)) = 2"
proof -
  have "isCompilerOptions sample_world (TObject 11)"
    by (simp add: isCompilerOptions_def has_property_simps get_property_simps sample_objects
        empty_object_def)
  with discriminators_overlap [of sample_world "TObject 11"] show ?thesis
    by simp
qed

section \<open>The parsed command line variant\<close>

text \<open>
  The file list of a parsed command line handed in by the caller does not come back as
  it was: in the sample project the source file is dropped from it.
\<close>

theorem parsed_command_line_file_list_filtered:
  "prop_fileNames (objects sample_world 10)
     = Some [''/project/src/index.ts'', ''/project/typings/globals.d.ts'']
   \<and> isParsedCommandLine sample_world (TObject 10)
   \<and> result_fileNames
         (getParsedCommandLine sample_toolchain (sample_call (TObject 10) (Some sample_forced)) sample_world)
       = Some [''/project/typings/globals.d.ts'']"
  by (simp add: sample_parsed_run result_fileNames_def isParsedCommandLine_iff sample_objects
      empty_object_def)

text \<open>
  C6, amended. When \<^verbatim>\<open>tsconfig\<close> is a parsed command line (an object with an
  \<^verbatim>\<open>options\<close> property and no \<^verbatim>\<open>hook\<close> property) that has a file list, the call
  returns that very object; its current options are the original options; afterwards its
  options are the spread of the old options and the forced ones, so that every forced key
  holds the forced value, its file list is the old one restricted to the entries that end
  with the declaration extension, and its diagnostics and all other properties are as
  before.
\<close>

theorem parsed_command_line_reused:
  assumes "tsconfig opts = TObject r"
    and "isParsedCommandLine w (TObject r)"
    and "prop_fileNames (objects w r) = Some files"
  shows "\<exists>base w'.
           prop_options (objects w r) = Some base
         \<and> getParsedCommandLine tc opts w
              = Inr (\<lparr>parsedCommandLine = r, originalCompilerOptions = base\<rparr>, w')
         \<and> objects w' r = (objects w r)
              \<lparr>prop_options := Some (base ++ options_or_empty (forcedCompilerOptions opts)),
               prop_fileNames :=
                 Some (filter (\<lambda>file. endsWith file (DECLARATION_EXTENSION tc)) files)\<rparr>
         \<and> prop_errors (objects w' r) = prop_errors (objects w r)
         \<and> (\<forall>k \<in> dom (options_or_empty (forcedCompilerOptions opts)).
               (base ++ options_or_empty (forcedCompilerOptions opts)) k
                 = options_or_empty (forcedCompilerOptions opts) k)"
proof -
  from assms(2) obtain base where
    b: "prop_options (objects w r) = Some base" and h: "prop_hook (objects w r) = None"
    by (auto simp: isParsedCommandLine_iff)
  show ?thesis
    using getParsedCommandLine_parsed [OF assms(1) b h, of tc] b assms(3)
    by (auto simp: map_add_dom_app_simps)
qed

theorem parsed_command_line_reused_witness:
  "isParsedCommandLine sample_world (TObject 10)
   \<and> canonical_options
        (getParsedCommandLine sample_toolchain (sample_call (TObject 10) (Some sample_forced)) sample_world)
      = Some (sample_options ++ sample_forced)
   \<and> sample_forced ''declaration'' = Some (JBool True)
   \<and> (sample_options ++ sample_forced) ''declaration'' = Some (JBool True)"
proof -
  have p: "isParsedCommandLine sample_world (TObject 10)"
    by (simp add: isParsedCommandLine_iff sample_objects empty_object_def)
  have f: "prop_fileNames (objects sample_world 10)
     = Some [''/project/src/index.ts'', ''/project/typings/globals.d.ts'']"
    by (simp add: sample_objects empty_object_def)
  have t: "tsconfig (sample_call (TObject 10) (Some sample_forced)) = TObject 10"
    by (simp add: sample_call_simps)
  from parsed_command_line_reused [OF t p f, of sample_toolchain] p
  show ?thesis
    by (auto simp: canonical_options_def sample_call_simps options_or_empty_def
        sample_options_lookup sample_objects empty_object_def)
qed

section \<open>The file list of the result\<close>

text \<open>
  C7. Whatever the input variant, when \<^verbatim>\<open>getParsedCommandLine\<close> returns, the parsed command
  line it returns has a file list, and every entry of it ends with the declaration extension.
\<close>

theorem fileNames_only_declarations:
  assumes "getParsedCommandLine tc opts w = Inr (res, w')"
  shows "\<exists>files. prop_fileNames (objects w' (parsedCommandLine res)) = Some files
           \<and> (\<forall>file \<in> set files. endsWith file (DECLARATION_EXTENSION tc)
                                  \<and> suffix (DECLARATION_EXTENSION tc) file)"
proof -
  from assms obtain original p w1 where
    k: "keep_declaration_files tc p w1 = Inr w'" and r: "parsedCommandLine res = p"
    unfolding getParsedCommandLine_def filter_and_return_def Let_def
    by (auto split: sum.splits prod.splits)
  from k r show ?thesis
    by (auto simp: keep_declaration_files_def update_object_def endsWith_suffix
        split: option.splits)
qed

theorem fileNames_only_declarations_witness:
  "result_fileNames
     (getParsedCommandLine sample_toolchain (sample_call (TObject 10) (Some sample_forced)) sample_world)
     = Some [''/project/typings/globals.d.ts'']
   \<and> endsWith ''/project/typings/globals.d.ts'' (DECLARATION_EXTENSION sample_toolchain)"
  using fileNames_only_declarations [OF sample_parsed_run [of "Some sample_forced"]]
  by (simp add: sample_parsed_run result_fileNames_def)

section \<open>The missing configuration file\<close>

text \<open>
  A resolver function names no configuration file, yet the call throws the error that
  names the default path when no file is there.
\<close>

theorem resolver_function_without_file_throws:
  "supplied_path sample_world (TFunction sample_hook) = None
   \<and> thrown (getParsedCommandLine sample_toolchain
       \<lparr>cwd = ''/elsewhere'', tsconfig = TFunction sample_hook, forcedCompilerOptions = None\<rparr>
       sample_world)
     = Some (ReferenceError (missing_tsconfig_message ''/elsewhere/tsconfig.json''))"
  by (simp add: sample_elsewhere_run thrown_simps)

text \<open>
  C3, amended. The call throws the error that names the resolved absolute path exactly
  when the input reaches the last branch, is not missing, and the path resolved for it does
  not exist; the message contains that path. The path resolved is the string itself for a
  path string, the \<^verbatim>\<open>fileName\<close> for an object with a hook, and the default
  \<^verbatim>\<open>tsconfig.json\<close> for a resolver function. When no input is supplied the call does not
  throw: it parses the default file when that exists and the empty content otherwise, with
  the forced options handed to the parser in both cases.
\<close>

theorem missing_tsconfig_error:
  "(thrown (getParsedCommandLine tc opts w) = Some (ReferenceError m) \<longleftrightarrow>
      \<not> isParsedCommandLine w (tsconfig opts) \<and> \<not> isRawCompilerOptions w (tsconfig opts)
      \<and> \<not> nullish (tsconfig opts)
      \<and> (\<exists>name. tsconfig_file_argument w (tsconfig opts) = Some name
            \<and> \<not> fileExistsSync tc (ensureAbsolute tc (cwd opts) name)
            \<and> m = missing_tsconfig_message (ensureAbsolute tc (cwd opts) name)))
   \<and> sublist path (missing_tsconfig_message path)
   \<and> tsconfig_file_argument w (TString s) = Some s
   \<and> tsconfig_file_argument w (TFunction f) = Some ''tsconfig.json''
   \<and> (isTsConfigResolverWithFileName w (TObject r) \<longrightarrow>
         tsconfig_file_argument w (TObject r) = supplied_path w (TObject r))
   \<and> (nullish (tsconfig opts) \<longrightarrow>
         getParsedCommandLine tc opts w =
           (if fileExistsSync tc (ensureAbsolute tc (cwd opts) ''tsconfig.json'')
            then parsed_outcome tc (cwd opts) (options_or_empty (forcedCompilerOptions opts)) None
                   (ensureAbsolute tc (cwd opts) ''tsconfig.json'')
                   (readFileSync tc (ensureAbsolute tc (cwd opts) ''tsconfig.json''))
                   (w\<lparr>fs_calls := fs_calls w @
                        [FileExists (ensureAbsolute tc (cwd opts) ''tsconfig.json''),
                         ReadFile (ensureAbsolute tc (cwd opts) ''tsconfig.json'')]\<rparr>)
            else parsed_outcome tc (cwd opts) (options_or_empty (forcedCompilerOptions opts)) None
                   (ensureAbsolute tc (cwd opts) ''tsconfig.json'') []
                   (w\<lparr>fs_calls := fs_calls w @
                        [FileExists (ensureAbsolute tc (cwd opts) ''tsconfig.json'')]\<rparr>)))"
proof (intro conjI impI)
  show "thrown (getParsedCommandLine tc opts w) = Some (ReferenceError m) \<longleftrightarrow>
      \<not> isParsedCommandLine w (tsconfig opts) \<and> \<not> isRawCompilerOptions w (tsconfig opts)
      \<and> \<not> nullish (tsconfig opts)
      \<and> (\<exists>name. tsconfig_file_argument w (tsconfig opts) = Some name
            \<and> \<not> fileExistsSync tc (ensureAbsolute tc (cwd opts) name)
            \<and> m = missing_tsconfig_message (ensureAbsolute tc (cwd opts) name))"
  proof (cases "isParsedCommandLine w (tsconfig opts)")
    case True
    then obtain r base where
      t: "tsconfig opts = TObject r" and b: "prop_options (objects w r) = Some base"
      and h: "prop_hook (objects w r) = None"
      by (auto simp: isParsedCommandLine_iff)
    from True getParsedCommandLine_parsed [OF t b h, of tc] show ?thesis
      by (auto simp: thrown_simps split: option.splits)
  next
    case notParsed: False
    show ?thesis
    proof (cases "isRawCompilerOptions w (tsconfig opts)")
      case raw: True
      then obtain r where t: "tsconfig opts = TObject r"
        by (auto simp: isRawCompilerOptions_iff)
      show ?thesis
      proof (cases "isCompilerOptions w (TObject r)")
        case True
        from getParsedCommandLine_compiler_options [OF t True, of tc] raw show ?thesis
          by (simp add: thrown_simps)
      next
        case False
        from getParsedCommandLine_raw [OF t _ False, of tc] raw t show ?thesis
          by (simp add: thrown_simps)
      qed
    next
      case notRaw: False
      have ret: "thrown (filter_and_return tc (parse_and_extend tc d f t p c w1)) = None"
        for d f t p c w1
        using parse_and_extend_returns [of tc d f t p c w1] by (auto simp: thrown_simps)
      show ?thesis
        using notParsed notRaw
        by (auto simp: getParsedCommandLine_last_branch [OF notParsed notRaw] ret thrown_simps
            split: option.splits)
    qed
  qed
next
  show "sublist path (missing_tsconfig_message path)"
    by (rule missing_tsconfig_message_names_path)
next
  show "tsconfig_file_argument w (TString s) = Some s"
    and "tsconfig_file_argument w (TFunction f) = Some ''tsconfig.json''"
    by (simp_all add: tsconfig_file_argument_simps)
next
  assume "isTsConfigResolverWithFileName w (TObject r)"
  then show "tsconfig_file_argument w (TObject r) = supplied_path w (TObject r)"
    by (simp add: tsconfig_file_argument_def)
next
  assume n: "nullish (tsconfig opts)"
  then have d: "\<not> isParsedCommandLine w (tsconfig opts)" "\<not> isRawCompilerOptions w (tsconfig opts)"
      "allocated w (tsconfig opts)" "resolver_hook w (tsconfig opts) = None"
      "tsconfig_file_argument w (tsconfig opts) = Some ''tsconfig.json''"
    by (cases "tsconfig opts"; simp add: not_object_discriminators tsconfig_file_argument_simps)+
  show "getParsedCommandLine tc opts w =
           (if fileExistsSync tc (ensureAbsolute tc (cwd opts) ''tsconfig.json'')
            then parsed_outcome tc (cwd opts) (options_or_empty (forcedCompilerOptions opts)) None
                   (ensureAbsolute tc (cwd opts) ''tsconfig.json'')
                   (readFileSync tc (ensureAbsolute tc (cwd opts) ''tsconfig.json''))
                   (w\<lparr>fs_calls := fs_calls w @
                        [FileExists (ensureAbsolute tc (cwd opts) ''tsconfig.json''),
                         ReadFile (ensureAbsolute tc (cwd opts) ''tsconfig.json'')]\<rparr>)
            else parsed_outcome tc (cwd opts) (options_or_empty (forcedCompilerOptions opts)) None
                   (ensureAbsolute tc (cwd opts) ''tsconfig.json'') []
                   (w\<lparr>fs_calls := fs_calls w @
                        [FileExists (ensureAbsolute tc (cwd opts) ''tsconfig.json'')]\<rparr>))"
    using n by (simp add: getParsedCommandLine_resolved [OF d(1,2,3)] d(4,5))
qed

theorem missing_tsconfig_error_witness:
  "thrown (getParsedCommandLine sample_toolchain
     (sample_call (TString ''tsconfig.custom.json'') (Some sample_forced)) sample_world)
     = Some (ReferenceError (missing_tsconfig_message ''/project/tsconfig.custom.json''))
   \<and> sublist ''/project/tsconfig.custom.json''
         (missing_tsconfig_message ''/project/tsconfig.custom.json'')
   \<and> isTsConfigResolverWithFileName sample_world (TObject 13)
   \<and> tsconfig_file_argument sample_world (TObject 13) = Some ''tsconfig.json''
   \<and> canonical_options
         (getParsedCommandLine sample_toolchain
            \<lparr>cwd = ''/elsewhere'', tsconfig = TUndefined, forcedCompilerOptions = Some sample_forced\<rparr>
            sample_world)
       = Some (sample_forced(''configFilePath'' \<mapsto> JStr ''/elsewhere/tsconfig.json''))"
proof -
  have rwf: "isTsConfigResolverWithFileName sample_world (TObject 13)"
    by (simp add: isTsConfigResolverWithFileName_iff sample_objects empty_object_def)
  note explicit = missing_tsconfig_error
    [of sample_toolchain "sample_call (TString ''tsconfig.custom.json'') (Some sample_forced)"
        sample_world "missing_tsconfig_message ''/project/tsconfig.custom.json''"
        "''/project/tsconfig.custom.json''" "''tsconfig.custom.json''" sample_hook 13]
  note absent = missing_tsconfig_error
    [of sample_toolchain
        "\<lparr>cwd = ''/elsewhere'', tsconfig = TUndefined, forcedCompilerOptions = Some sample_forced\<rparr>"
        sample_world]
  from explicit have
    "thrown (getParsedCommandLine sample_toolchain
       (sample_call (TString ''tsconfig.custom.json'') (Some sample_forced)) sample_world)
     = Some (ReferenceError (missing_tsconfig_message ''/project/tsconfig.custom.json''))"
    by (simp add: sample_call_simps not_object_discriminators sample_toolchain_simps)
  moreover from explicit have
    "sublist ''/project/tsconfig.custom.json''
       (missing_tsconfig_message ''/project/tsconfig.custom.json'')"
    by blast
  moreover from explicit rwf have
    "tsconfig_file_argument sample_world (TObject 13) = Some ''tsconfig.json''"
    by (simp add: sample_objects empty_object_def)
  moreover from absent have
    "canonical_options
       (getParsedCommandLine sample_toolchain
          \<lparr>cwd = ''/elsewhere'', tsconfig = TUndefined, forcedCompilerOptions = Some sample_forced\<rparr>
          sample_world)
     = Some (sample_forced(''configFilePath'' \<mapsto> JStr ''/elsewhere/tsconfig.json''))"
    by (simp add: sample_toolchain_simps parsed_outcome_def canonical_options_def store_parsed_def
        apply_hook_def sample_parse_simps sample_config options_or_empty_def)
  ultimately show ?thesis using rwf by blast
qed

section \<open>Original options and forced options\<close>

text \<open>
  With a resolver function, and with a file name and hook, the forced option
  \<^verbatim>\<open>declaration\<close> is among the original options although neither the configuration file
  nor the hook sets it: without forced options it is not there.
\<close>

theorem forced_options_leak_through_hook:
  "sample_forced ''declaration'' = Some (JBool True)
   \<and> lookup_in (original_options (getParsedCommandLine sample_toolchain
         (sample_call (TFunction sample_hook) (Some sample_forced)) sample_world)) ''declaration''
       = Some (JBool True)
   \<and> lookup_in (original_options (getParsedCommandLine sample_toolchain
         (sample_call (TFunction sample_hook) None) sample_world)) ''declaration''
       = None
   \<and> lookup_in (original_options (getParsedCommandLine sample_toolchain
         (sample_call (TObject 13) (Some sample_forced)) sample_world)) ''declaration''
       = Some (JBool True)
   \<and> lookup_in (original_options (getParsedCommandLine sample_toolchain
         (sample_call (TObject 13) None) sample_world)) ''declaration''
       = None"
  by (simp add: sample_function_run sample_hook_record_run original_options_def lookup_in_def
      sample_hook_simps options_or_empty_def sample_options_lookup)

text \<open>
  C1, amended. For every input other than a resolver function and an object with a hook
  (a parsed command line, an options object with or without enum codes, a path string, no
  input), the original options do not depend on the forced options: they are what the
  same call yields without forced options. For a resolver function and for a file name
  with a hook, a call that returns has found the configuration file, and its original
  options are exactly the spread of two objects: what the function or hook returns for
  the options parsed from that file with no existing options, and the forced options. So
  each forced key is among them with the forced value.
\<close>

theorem original_options_and_forced:
  "(\<not> isTsConfigResolver (tsconfig opts) \<and> \<not> isTsConfigResolverWithFileName w (tsconfig opts) \<longrightarrow>
      original_options (getParsedCommandLine tc opts w)
        = original_options (getParsedCommandLine tc (opts\<lparr>forcedCompilerOptions := None\<rparr>) w))
   \<and> ((isTsConfigResolver (tsconfig opts) \<or> isTsConfigResolverWithFileName w (tsconfig opts))
        \<and> allocated w (tsconfig opts)
        \<and> getParsedCommandLine tc opts w = Inr (res, w') \<longrightarrow>
      (\<exists>f name.
          (tsconfig opts = TFunction f
           \<or> (\<exists>r. tsconfig opts = TObject r \<and> prop_hook (objects w r) = Some f))
        \<and> tsconfig_file_argument w (tsconfig opts) = Some name
        \<and> fileExistsSync tc (ensureAbsolute tc (cwd opts) name)
        \<and> originalCompilerOptions res
            = f (options (parseJsonConfigFileContent tc
                   (parseConfigFileTextToJson tc (ensureAbsolute tc (cwd opts) name)
                      (readFileSync tc (ensureAbsolute tc (cwd opts) name)))
                   (cwd opts) (Some Map.empty) (Some (ensureAbsolute tc (cwd opts) name))))
              ++ options_or_empty (forcedCompilerOptions opts))
      \<and> (\<forall>k \<in> dom (options_or_empty (forcedCompilerOptions opts)).
            originalCompilerOptions res k = options_or_empty (forcedCompilerOptions opts) k))"
proof (intro conjI impI)
  assume "\<not> isTsConfigResolver (tsconfig opts) \<and> \<not> isTsConfigResolverWithFileName w (tsconfig opts)"
  then show "original_options (getParsedCommandLine tc opts w)
        = original_options (getParsedCommandLine tc (opts\<lparr>forcedCompilerOptions := None\<rparr>) w)"
    using original_options_without_hook [of opts w tc None] by simp
next
  assume a: "(isTsConfigResolver (tsconfig opts) \<or> isTsConfigResolverWithFileName w (tsconfig opts))
        \<and> allocated w (tsconfig opts)
        \<and> getParsedCommandLine tc opts w = Inr (res, w')"
  then obtain f where h: "resolver_hook w (tsconfig opts) = Some f"
    by (auto simp: isTsConfigResolver_iff isTsConfigResolverWithFileName_iff)
  then have shape: "tsconfig opts = TFunction f
           \<or> (\<exists>r. tsconfig opts = TObject r \<and> prop_hook (objects w r) = Some f)"
    by (cases "tsconfig opts") (auto split: if_splits)
  from original_options_with_hook [OF h] a obtain name where
    n: "tsconfig_file_argument w (tsconfig opts) = Some name"
      "fileExistsSync tc (ensureAbsolute tc (cwd opts) name)"
      "originalCompilerOptions res
            = f (options (parseJsonConfigFileContent tc
                   (parseConfigFileTextToJson tc (ensureAbsolute tc (cwd opts) name)
                      (readFileSync tc (ensureAbsolute tc (cwd opts) name)))
                   (cwd opts) (Some Map.empty) (Some (ensureAbsolute tc (cwd opts) name))))
              ++ options_or_empty (forcedCompilerOptions opts)"
    by blast
  from shape n show "\<exists>f name.
          (tsconfig opts = TFunction f
           \<or> (\<exists>r. tsconfig opts = TObject r \<and> prop_hook (objects w r) = Some f))
        \<and> tsconfig_file_argument w (tsconfig opts) = Some name
        \<and> fileExistsSync tc (ensureAbsolute tc (cwd opts) name)
        \<and> originalCompilerOptions res
            = f (options (parseJsonConfigFileContent tc
                   (parseConfigFileTextToJson tc (ensureAbsolute tc (cwd opts) name)
                      (readFileSync tc (ensureAbsolute tc (cwd opts) name)))
                   (cwd opts) (Some Map.empty) (Some (ensureAbsolute tc (cwd opts) name))))
              ++ options_or_empty (forcedCompilerOptions opts)"
    by blast
  from n(3) show "\<forall>k \<in> dom (options_or_empty (forcedCompilerOptions opts)).
         originalCompilerOptions res k = options_or_empty (forcedCompilerOptions opts) k"
    by (auto simp: map_add_dom_app_simps)
qed

theorem original_options_and_forced_witness:
  "\<not> isTsConfigResolver (TString ''tsconfig.json'')
   \<and> \<not> isTsConfigResolverWithFileName sample_world (TString ''tsconfig.json'')
   \<and> original_options (getParsedCommandLine sample_toolchain
         (sample_call (TString ''tsconfig.json'') (Some sample_forced)) sample_world)
       = original_options (getParsedCommandLine sample_toolchain
         (sample_call (TString ''tsconfig.json'') None) sample_world)
   \<and> isTsConfigResolverWithFileName sample_world (TObject 13)
   \<and> allocated sample_world (TObject 13)
   \<and> original_options (getParsedCommandLine sample_toolchain
         (sample_call (TObject 13) (Some sample_forced)) sample_world)
       = Some (sample_hook sample_options ++ sample_forced)
   \<and> lookup_in (original_options (getParsedCommandLine sample_toolchain
         (sample_call (TObject 13) (Some sample_forced)) sample_world)) ''declaration''
       = sample_forced ''declaration''"
proof -
  have rwf: "isTsConfigResolverWithFileName sample_world (TObject 13)"
    by (simp add: isTsConfigResolverWithFileName_iff sample_objects empty_object_def)
  have al: "allocated sample_world (TObject 13)"
    by (simp add: sample_objects)
  have nh: "\<not> isTsConfigResolver (TString ''tsconfig.json'')"
    "\<not> isTsConfigResolverWithFileName sample_world (TString ''tsconfig.json'')"
    by (simp_all add: isTsConfigResolver_iff isTsConfigResolverWithFileName_iff)
  have c: "sample_call t (Some sample_forced)\<lparr>forcedCompilerOptions := None\<rparr> = sample_call t None" for t
    by (simp add: sample_call_def)
  from original_options_and_forced
         [of "sample_call (TString ''tsconfig.json'') (Some sample_forced)" sample_world sample_toolchain]
       nh
  have 1: "original_options (getParsedCommandLine sample_toolchain
         (sample_call (TString ''tsconfig.json'') (Some sample_forced)) sample_world)
       = original_options (getParsedCommandLine sample_toolchain
         (sample_call (TString ''tsconfig.json'') None) sample_world)"
    by (simp add: sample_call_simps c)
  from original_options_and_forced
         [of "sample_call (TObject 13) (Some sample_forced)" sample_world sample_toolchain]
       rwf al sample_hook_record_run [of "Some sample_forced"]
  have 2: "\<forall>k \<in> dom sample_forced.
             (sample_hook sample_options ++ sample_forced) k = sample_forced k"
    by (fastforce simp: sample_call_simps options_or_empty_def)
  have 3: "original_options (getParsedCommandLine sample_toolchain
         (sample_call (TObject 13) (Some sample_forced)) sample_world)
       = Some (sample_hook sample_options ++ sample_forced)"
    by (simp add: sample_hook_record_run original_options_def options_or_empty_def)
  have "''declaration'' \<in> dom sample_forced"
    by (simp add: sample_forced_def)
  with 2 3 have 4: "lookup_in (original_options (getParsedCommandLine sample_toolchain
         (sample_call (TObject 13) (Some sample_forced)) sample_world)) ''declaration''
       = sample_forced ''declaration''"
    by (simp add: lookup_in_def)
  from 1 3 4 rwf al nh show ?thesis by blast
qed

section \<open>Canonical options across variants\<close>

text \<open>
  In the sample project the resolver function with the sample hook and the parsed command
  line of object 10 have the same options before any forced option comes in. Under the
  forced option \<^verbatim>\<open>declaration\<close> their canonical options differ: the hook sees the forced
  option and switches \<^verbatim>\<open>declarationMap\<close> on.
\<close>

theorem hook_variant_canonical_options_differ:
  "original_options (getParsedCommandLine sample_toolchain
       (sample_call (TFunction sample_hook) None) sample_world)
     = original_options (getParsedCommandLine sample_toolchain
       (sample_call (TObject 10) None) sample_world)
   \<and> lookup_in (canonical_options (getParsedCommandLine sample_toolchain
       (sample_call (TFunction sample_hook) (Some sample_forced)) sample_world)) ''declarationMap''
     = Some (JBool True)
   \<and> lookup_in (canonical_options (getParsedCommandLine sample_toolchain
       (sample_call (TObject 10) (Some sample_forced)) sample_world)) ''declarationMap''
     = None
   \<and> canonical_options (getParsedCommandLine sample_toolchain
       (sample_call (TFunction sample_hook) (Some sample_forced)) sample_world)
     \<noteq> canonical_options (getParsedCommandLine sample_toolchain
       (sample_call (TObject 10) (Some sample_forced)) sample_world)"
proof -
  have same: "original_options (getParsedCommandLine sample_toolchain
       (sample_call (TFunction sample_hook) None) sample_world)
     = original_options (getParsedCommandLine sample_toolchain
       (sample_call (TObject 10) None) sample_world)"
    by (simp add: sample_function_run sample_parsed_run original_options_def sample_hook_simps
        options_or_empty_def)
  have a: "lookup_in (canonical_options (getParsedCommandLine sample_toolchain
       (sample_call (TFunction sample_hook) (Some sample_forced)) sample_world)) ''declarationMap''
     = Some (JBool True)"
    by (simp add: sample_function_run canonical_options_def lookup_in_def options_or_empty_def
        sample_forced_overlay sample_hook_simps)
       (simp add: sample_forced_def)
  have b: "lookup_in (canonical_options (getParsedCommandLine sample_toolchain
       (sample_call (TObject 10) (Some sample_forced)) sample_world)) ''declarationMap''
     = None"
    by (simp add: sample_parsed_run canonical_options_def lookup_in_def options_or_empty_def
        sample_options_lookup)
  from a b have "canonical_options (getParsedCommandLine sample_toolchain
       (sample_call (TFunction sample_hook) (Some sample_forced)) sample_world)
     \<noteq> canonical_options (getParsedCommandLine sample_toolchain
       (sample_call (TObject 10) (Some sample_forced)) sample_world)"
    by (metis option.distinct(1))
  with same a b show ?thesis by blast
qed

text \<open>
  C5, amended. Let the compiler's parser lay the existing options it is given over the
  options it parses, on every key but those of a set \<open>owned\<close> that it assigns itself
  whatever the existing options say (the compiler's parser assigns \<^verbatim>\<open>configFilePath\<close> so),
  and let the forced options set no key of \<open>owned\<close>. Then for every input other than a
  resolver function and an object with a hook, the canonical options are the original
  options with the forced options spread over them. So two such inputs, of whatever
  variants, that have the same original options get identical canonical options under the
  same forced options.
\<close>

theorem canonical_options_variant_independent:
  assumes "\<And>json dir existing name k. k \<notin> owned \<Longrightarrow>
      options (parseJsonConfigFileContent tc json dir existing name) k
        = (options (parseJsonConfigFileContent tc json dir None name) ++ options_or_empty existing) k"
    and "\<And>json dir existing name k. k \<in> owned \<Longrightarrow>
      options (parseJsonConfigFileContent tc json dir existing name) k
        = options (parseJsonConfigFileContent tc json dir None name) k"
    and "dom (options_or_empty (forcedCompilerOptions a)) \<inter> owned = {}"
    and "\<not> isTsConfigResolver (tsconfig a)" and "\<not> isTsConfigResolverWithFileName wa (tsconfig a)"
    and "\<not> isTsConfigResolver (tsconfig b)" and "\<not> isTsConfigResolverWithFileName wb (tsconfig b)"
    and "forcedCompilerOptions a = forcedCompilerOptions b"
    and "getParsedCommandLine tc a wa = Inr (ra, wa')"
    and "getParsedCommandLine tc b wb = Inr (rb, wb')"
    and "originalCompilerOptions ra = originalCompilerOptions rb"
  shows "prop_options (objects wa' (parsedCommandLine ra))
           = Some (originalCompilerOptions ra ++ options_or_empty (forcedCompilerOptions a))
       \<and> prop_options (objects wb' (parsedCommandLine rb))
           = prop_options (objects wa' (parsedCommandLine ra))"
proof -
  have db: "dom (options_or_empty (forcedCompilerOptions b)) \<inter> owned = {}"
    using assms(3,8) by simp
  from canonical_original_plus_forced [of owned tc, OF assms(1) assms(2) assms(3) assms(4,5) assms(9)]
       canonical_original_plus_forced [of owned tc, OF assms(1) assms(2) db assms(6,7) assms(10)]
       assms(8,11)
  show ?thesis by simp
qed

theorem canonical_options_variant_independent_witness:
  "canonical_options (getParsedCommandLine sample_toolchain
       (sample_call (TString ''tsconfig.json'') (Some sample_forced)) sample_world)
     = Some (sample_options ++ sample_forced)
   \<and> canonical_options (getParsedCommandLine sample_toolchain
       (sample_call (TObject 10) (Some sample_forced)) sample_world)
     = canonical_options (getParsedCommandLine sample_toolchain
       (sample_call (TString ''tsconfig.json'') (Some sample_forced)) sample_world)
   \<and> canonical_options (getParsedCommandLine sample_toolchain
       (sample_call (TObject 12) (Some sample_forced)) sample_world)
     = canonical_options (getParsedCommandLine sample_toolchain
       (sample_call (TObject 11) (Some sample_forced)) sample_world)"
proof -
  have nh: "\<not> isTsConfigResolver (tsconfig (sample_call (TString ''tsconfig.json'') (Some sample_forced)))"
    "\<not> isTsConfigResolverWithFileName sample_world
         (tsconfig (sample_call (TString ''tsconfig.json'') (Some sample_forced)))"
    "\<not> isTsConfigResolver (tsconfig (sample_call (TObject 10) (Some sample_forced)))"
    "\<not> isTsConfigResolverWithFileName sample_world
         (tsconfig (sample_call (TObject 10) (Some sample_forced)))"
    by (simp_all add: sample_call_simps isTsConfigResolver_iff isTsConfigResolverWithFileName_iff
        sample_objects empty_object_def)
  have no: "\<not> isTsConfigResolver (tsconfig (sample_call (TObject 11) (Some sample_forced)))"
    "\<not> isTsConfigResolverWithFileName sample_world
         (tsconfig (sample_call (TObject 11) (Some sample_forced)))"
    "\<not> isTsConfigResolver (tsconfig (sample_call (TObject 12) (Some sample_forced)))"
    "\<not> isTsConfigResolverWithFileName sample_world
         (tsconfig (sample_call (TObject 12) (Some sample_forced)))"
    by (simp_all add: sample_call_simps isTsConfigResolver_iff isTsConfigResolverWithFileName_iff
        sample_objects empty_object_def)
  have d: "dom (options_or_empty (forcedCompilerOptions (sample_call t (Some sample_forced))))
             \<inter> {''configFilePath''} = {}" for t
    by (simp add: sample_call_simps options_or_empty_def sample_forced_def)
  have f: "forcedCompilerOptions (sample_call t (Some sample_forced))
             = forcedCompilerOptions (sample_call u (Some sample_forced))" for t u
    by (simp add: sample_call_simps)
  have e1: "originalCompilerOptions \<lparr>parsedCommandLine = 21, originalCompilerOptions = sample_options\<rparr>
          = originalCompilerOptions \<lparr>parsedCommandLine = 10, originalCompilerOptions = sample_options\<rparr>"
    by simp
  have e2: "originalCompilerOptions \<lparr>parsedCommandLine = 21, originalCompilerOptions =
              Map.empty(''target'' \<mapsto> JNum 6, ''configFilePath'' \<mapsto> JUndefined)\<rparr>
          = originalCompilerOptions \<lparr>parsedCommandLine = 21, originalCompilerOptions =
              Map.empty(''target'' \<mapsto> JNum 6, ''configFilePath'' \<mapsto> JUndefined)\<rparr>"
    by simp
  note first = canonical_options_variant_independent
         [of "{''configFilePath''}" sample_toolchain, OF sample_toolchain_overlay d nh f
            sample_path_run [of "Some sample_forced"] sample_parsed_run [of "Some sample_forced"] e1]
  note second = canonical_options_variant_independent
         [of "{''configFilePath''}" sample_toolchain, OF sample_toolchain_overlay d no f
            sample_enum_run [of "Some sample_forced"] sample_raw_run [of "Some sample_forced"] e2]
  from first second show ?thesis
    unfolding sample_canonical by simp
qed

section \<open>Side effects\<close>




end
